theory Spec2Isabelle
  imports Complex_Main "HOL-Library.Word"
begin

section \<open>Errors\<close>

text \<open>
  Every exception the service can raise is a value. A function that can raise returns
  \<open>error + 'a\<close>, with \<open>Inl\<close> for the exception.
\<close>

datatype error =
    OSError string
  | UnidentifiedImageError
  | ZeroDivisionError
  | RuntimeError
  | ValueError
  | AxisError
  | KeyError
  | AssertionError

section \<open>Images and the image preprocessor (image\_processor.py)\<close>

text \<open>
  A PIL image in RGB mode: its size and a pixel at every coordinate inside it. A pixel
  is three bytes.
\<close>

type_synonym pixel = "8 word \<times> 8 word \<times> 8 word"

record pil_image =
  im_width :: nat
  im_height :: nat
  getpixel :: "nat \<Rightarrow> nat \<Rightarrow> pixel"

text \<open>\<open>Image.new("RGB", (w, h))\<close>: a black canvas.\<close>

definition Image_new :: "nat \<Rightarrow> nat \<Rightarrow> pil_image" where
  "Image_new w h = \<lparr>im_width = w, im_height = h, getpixel = (\<lambda>x y. (0, 0, 0))\<rparr>"

text \<open>
  Resampling to \<open>w\<close> by \<open>h\<close> pixels. The filter is not fixed by the specification;
  nearest-neighbour sampling stands for it, and no result below depends on that choice.
\<close>

definition resample :: "pil_image \<Rightarrow> nat \<Rightarrow> nat \<Rightarrow> pil_image" where
  "resample im w h =
     \<lparr>im_width = w, im_height = h,
      getpixel = (\<lambda>x y. getpixel im (x * im_width im div w) (y * im_height im div h))\<rparr>"

text \<open>
  \<open>im.resize((w, h))\<close>, as Pillow does it: a request for the size the image already has
  returns a copy; otherwise a target side below one pixel raises \<open>ValueError\<close>
  ("height and width must be > 0"); otherwise the image is resampled.
\<close>

definition resize :: "pil_image \<Rightarrow> nat \<Rightarrow> nat \<Rightarrow> error + pil_image" where
  "resize im w h =
     (if w = im_width im \<and> h = im_height im then Inr im
      else if w < 1 \<or> h < 1 then Inl ValueError
      else Inr (resample im w h))"

text \<open>
  \<open>canvas.paste(im, (x0, y0))\<close>: the pixels of \<open>im\<close> replace those of the canvas in
  the box that starts at \<open>(x0, y0)\<close>; the part of the box outside the canvas is clipped,
  so the canvas keeps its size.
\<close>

definition paste :: "pil_image \<Rightarrow> pil_image \<Rightarrow> nat \<times> nat \<Rightarrow> pil_image" where
  "paste canvas im box =
     canvas\<lparr>getpixel :=
       (\<lambda>x y. if fst box \<le> x \<and> x < fst box + im_width im \<and>
                  snd box \<le> y \<and> y < snd box + im_height im
               then getpixel im (x - fst box) (y - snd box)
               else getpixel canvas x y)\<rparr>"

text \<open>
  Modelled from the spec: \<open>resize_image\<close> of the module \<open>clean_images\<close>, which
  \<open>image_processor.py\<close> imports and which is not among the source files. The
  specification (4.1) gives its algorithm: the scale factor is the target size over the
  longer side; the image is resized by it, keeping its aspect ratio; a black square
  canvas of the target size is created; the resized image is pasted at
  \<open>((size - new_width) // 2, (size - new_height) // 2)\<close>. An image with no pixel has no
  scale factor: that case is an error value here, never a division. The specification
  does not say how the scaled sides are rounded; they are rounded down here, as a
  conversion to an integer does. The resize step can raise, and then so does the function.
\<close>

definition resize_image :: "nat \<Rightarrow> pil_image \<Rightarrow> error + pil_image" where
  "resize_image final_size im =
     (let longer = max (im_width im) (im_height im) in
      if longer = 0 then Inl ZeroDivisionError
      else
        let new_width = im_width im * final_size div longer;
            new_height = im_height im * final_size div longer
        in case resize im new_width new_height of
             Inl e \<Rightarrow> Inl e
           | Inr resized \<Rightarrow>
               (let new_im = Image_new final_size final_size
                in Inr (paste new_im resized
                          ((final_size - new_width) div 2, (final_size - new_height) div 2))))"

subsection \<open>Tensors\<close>

text \<open>
  A torch tensor: its sizes, its elements in row-major order, and whether autograd
  tracks it. The element type is the constructor of the storage: \<open>PILToTensor\<close>
  produces bytes, \<open>.float()\<close> produces floats. Floating-point values are modelled as
  reals: rounding is outside this model.
\<close>

datatype dtype = UInt8 | Float32

datatype storage = ByteStorage "8 word list" | FloatStorage "real list"

record tensor =
  shape :: "nat list"
  storage :: storage
  requires_grad :: bool

fun dtype_of :: "storage \<Rightarrow> dtype" where
  "dtype_of (ByteStorage _) = UInt8"
| "dtype_of (FloatStorage _) = Float32"

fun numel :: "storage \<Rightarrow> nat" where
  "numel (ByteStorage bs) = length bs"
| "numel (FloatStorage fs) = length fs"

fun channel :: "nat \<Rightarrow> pixel \<Rightarrow> 8 word" where
  "channel c (r, g, b) = (if c = 0 then r else if c = 1 then g else b)"

text \<open>
  \<open>transforms.PILToTensor()\<close>: the bytes of the image, channel first, with no scaling;
  the result has sizes \<open>(3, height, width)\<close>.
\<close>

definition PILToTensor :: "pil_image \<Rightarrow> tensor" where
  "PILToTensor im =
     \<lparr>shape = [3, im_height im, im_width im],
      storage = ByteStorage
        (concat (map (\<lambda>c. concat (map (\<lambda>y. map (\<lambda>x. channel c (getpixel im x y))
                                              [0..<im_width im])
                                     [0..<im_height im]))
                     [0..<3])),
      requires_grad = False\<rparr>"

text \<open>\<open>t.unsqueeze(0)\<close>: a leading dimension of size 1.\<close>

definition unsqueeze0 :: "tensor \<Rightarrow> tensor" where
  "unsqueeze0 t = t\<lparr>shape := 1 # shape t\<rparr>"

text \<open>
  \<open>process_image_as_pil(image, image_size=224)\<close>. The default argument is written out
  at the call.
\<close>

definition process_image_as_pil :: "pil_image \<Rightarrow> nat \<Rightarrow> error + tensor" where
  "process_image_as_pil img image_size =
     (case resize_image image_size img of
        Inl e \<Rightarrow> Inl e
      | Inr cleaned_img \<Rightarrow> Inr (unsqueeze0 (PILToTensor cleaned_img)))"

text \<open>\<open>t.float()\<close>: bytes become the floats of the same value; floats are unchanged.\<close>

definition bytes_as_floats :: "8 word list \<Rightarrow> real list" where
  "bytes_as_floats bs = map (\<lambda>b. real (unat b)) bs"

fun float_storage :: "storage \<Rightarrow> storage" where
  "float_storage (ByteStorage bs) = FloatStorage (bytes_as_floats bs)"
| "float_storage (FloatStorage fs) = FloatStorage fs"

definition float_cast :: "tensor \<Rightarrow> tensor" where
  "float_cast t = t\<lparr>storage := float_storage (storage t)\<rparr>"

section \<open>The feature extractors (app/api.py)\<close>

text \<open>
  A two-dimensional float tensor, as its rows: the output of either model for a batch.
\<close>

record matrix =
  rows :: "real list list"
  grad :: bool

text \<open>\<open>t.detach()\<close> drops the autograd graph; \<open>t.to(device)\<close> moves the same values.\<close>

definition detach :: "matrix \<Rightarrow> matrix" where
  "detach t = t\<lparr>grad := False\<rparr>"

definition to_device :: "'a \<Rightarrow> 'a" where
  "to_device t = t"

text \<open>\<open>t.numpy()\<close> raises on a tensor that requires grad.\<close>

definition numpy :: "matrix \<Rightarrow> error + real list list" where
  "numpy t = (if grad t then Inl RuntimeError else Inr (rows t))"

subsection \<open>FeatureExtractor\<close>

text \<open>
  \<open>models.resnet50\<close> is torchvision's: the model takes it as a function. Its arguments
  are the module's training flag, the buffers of its batch-normalisation layers
  (running means and variances, batch counters), and the sizes and elements of the input;
  it returns the rows of logits, or the exception the pass raised (on sizes it cannot
  take), and the buffers as the pass left them. Its weights are part of the function.
  The decoder is a dictionary from class index to category name.
\<close>

type_synonym buffers = "real list"

type_synonym resnet =
  "bool \<Rightarrow> buffers \<Rightarrow> nat list \<Rightarrow> real list \<Rightarrow> (error + real list list) \<times> buffers"

type_synonym decoder = "(nat \<times> string) list"

record FeatureExtractor =
  resnet50 :: resnet
  fe_buffers :: buffers
  fe_training :: bool
  fe_requires_grad :: bool
  fe_decoder :: "decoder option"

text \<open>
  \<open>FeatureExtractor.__init__(decoder)\<close>, given the pretrained backbone and its buffers.
  \<open>nn.Module.__init__\<close> leaves a new module in training mode, and the parameters of a
  new module require grad; the constructor changes neither.
\<close>

definition FeatureExtractor_init :: "resnet \<times> buffers \<Rightarrow> decoder option \<Rightarrow> FeatureExtractor" where
  "FeatureExtractor_init pretrained dec =
     \<lparr>resnet50 = fst pretrained, fe_buffers = snd pretrained, fe_training = True,
      fe_requires_grad = True, fe_decoder = dec\<rparr>"

text \<open>Calling the backbone module: it runs in the mode and on the buffers the module has.\<close>

definition resnet50_call ::
    "FeatureExtractor \<Rightarrow> nat list \<Rightarrow> real list \<Rightarrow> (error + real list list) \<times> buffers" where
  "resnet50_call self sizes xs = resnet50 self (fe_training self) (fe_buffers self) sizes xs"

text \<open>
  \<open>self.layers(X)\<close> with \<open>layers = Sequential(resnet50)\<close>, under the grad mode
  \<open>grad_enabled\<close>. The convolutions have float weights and raise on a byte tensor,
  before any buffer is written. The pass may update the buffers, also when it raises
  later, so the module is returned with the result. The result is tracked by autograd
  when grad mode is on and a parameter or the input requires grad.
\<close>

definition FeatureExtractor_layers ::
    "bool \<Rightarrow> FeatureExtractor \<Rightarrow> tensor \<Rightarrow> (error + matrix) \<times> FeatureExtractor" where
  "FeatureExtractor_layers grad_enabled self X =
     (case storage X of
        ByteStorage _ \<Rightarrow> (Inl RuntimeError, self)
      | FloatStorage xs \<Rightarrow>
          (case resnet50_call self (shape X) xs of
             (Inl e, bufs) \<Rightarrow> (Inl e, self\<lparr>fe_buffers := bufs\<rparr>)
           | (Inr out, bufs) \<Rightarrow>
               (Inr \<lparr>rows = out,
                      grad = (grad_enabled \<and> (fe_requires_grad self \<or> requires_grad X))\<rparr>,
                self\<lparr>fe_buffers := bufs\<rparr>)))"

definition FeatureExtractor_forward ::
    "bool \<Rightarrow> FeatureExtractor \<Rightarrow> tensor \<Rightarrow> (error + matrix) \<times> FeatureExtractor" where
  "FeatureExtractor_forward grad_enabled self img =
     (let X = float_cast img in FeatureExtractor_layers grad_enabled self X)"

text \<open>\<open>predict\<close>: the layers under \<open>torch.no_grad()\<close>, with no cast of the input.\<close>

definition FeatureExtractor_predict ::
    "FeatureExtractor \<Rightarrow> tensor \<Rightarrow> (error + matrix) \<times> FeatureExtractor" where
  "FeatureExtractor_predict self img = FeatureExtractor_layers False self img"

subsection \<open>BertNeuralNetwork\<close>

text \<open>
  The default random generator of torch: the stream of the outcomes it will produce,
  \<open>True\<close> for an element that dropout zeroes. A draw of \<open>n\<close> outcomes takes the first
  \<open>n\<close> and leaves the rest.
\<close>

type_synonym generator = "nat \<Rightarrow> bool"

definition bernoulli :: "generator \<Rightarrow> nat \<Rightarrow> bool list \<times> generator" where
  "bernoulli gen n = (map gen [0..<n], (\<lambda>i. gen (i + n)))"

text \<open>
  \<open>torch.nn.Dropout(p)\<close> on one row: in training mode each element is zeroed when its
  outcome says so and scaled by \<open>1 / (1 - p)\<close> otherwise; in evaluation mode the row
  passes unchanged and nothing is drawn.
\<close>

definition Dropout :: "real \<Rightarrow> bool \<Rightarrow> generator \<Rightarrow> real list \<Rightarrow> real list \<times> generator" where
  "Dropout p training gen x =
     (if training
      then (let (mask, gen') = bernoulli gen (length x)
            in (map (\<lambda>(dropped, v). if dropped then 0 else v / (1 - p)) (zip mask x), gen'))
      else (x, gen))"

fun Dropout_rows :: "real \<Rightarrow> bool \<Rightarrow> generator \<Rightarrow> real list list \<Rightarrow> real list list \<times> generator" where
  "Dropout_rows p training gen [] = ([], gen)"
| "Dropout_rows p training gen (x # xs) =
     (let (y, gen') = Dropout p training gen x;
          (ys, gen'') = Dropout_rows p training gen' xs
      in (y # ys, gen''))"

text \<open>
  \<open>torch.nn.Linear(n_in, n_out)\<close> on one row: \<open>y\<^sub>j = \<Sum>\<^sub>i x\<^sub>i * W\<^sub>j\<^sub>i + b\<^sub>j\<close>; a row of another
  width raises.
\<close>

definition Linear :: "nat \<Rightarrow> nat \<Rightarrow> (nat \<Rightarrow> nat \<Rightarrow> real) \<Rightarrow> (nat \<Rightarrow> real) \<Rightarrow> real list \<Rightarrow> error + real list" where
  "Linear n_in n_out W b x =
     (if length x \<noteq> n_in then Inl RuntimeError
      else Inr (map (\<lambda>j. sum_list (map (\<lambda>i. x ! i * W j i) [0..<n_in]) + b j) [0..<n_out]))"

fun Linear_rows :: "nat \<Rightarrow> nat \<Rightarrow> (nat \<Rightarrow> nat \<Rightarrow> real) \<Rightarrow> (nat \<Rightarrow> real) \<Rightarrow> real list list \<Rightarrow> error + real list list" where
  "Linear_rows n_in n_out W b [] = Inr []"
| "Linear_rows n_in n_out W b (x # xs) =
     (case Linear n_in n_out W b x of
        Inl e \<Rightarrow> Inl e
      | Inr y \<Rightarrow> (case Linear_rows n_in n_out W b xs of Inl e \<Rightarrow> Inl e | Inr ys \<Rightarrow> Inr (y # ys)))"

text \<open>
  The tokenizer's output for \<open>return_tensors="pt"\<close>: token ids and attention mask, one
  row per text. \<open>BertModel\<close> is the transformers library's: the model takes it as a
  function from the two inputs to the pooled output, one row per text, or an exception
  (a text longer than the position table). \<open>from_pretrained\<close> returns it in evaluation
  mode, so it draws nothing.
\<close>

record encoding =
  input_ids :: "int list list"
  attention_mask :: "int list list"

type_synonym bert_model = "encoding \<Rightarrow> error + real list list"

record BertNeuralNetwork =
  bert :: bert_model
  linear_weight :: "nat \<Rightarrow> nat \<Rightarrow> real"
  linear_bias :: "nat \<Rightarrow> real"
  bnn_training :: bool
  bert_requires_grad :: bool
  head_requires_grad :: bool

text \<open>
  \<open>BertNeuralNetwork.__init__(decoder)\<close>, given the pretrained encoder and the initial
  values of the linear layer. The decoder is not stored. The loop over
  \<open>self.bert.named_parameters()\<close> freezes the encoder; the head keeps the default.
\<close>

definition BertNeuralNetwork_init ::
    "bert_model \<Rightarrow> (nat \<Rightarrow> nat \<Rightarrow> real) \<times> (nat \<Rightarrow> real) \<Rightarrow> decoder option \<Rightarrow> BertNeuralNetwork" where
  "BertNeuralNetwork_init pretrained init dec =
     \<lparr>bert = pretrained, linear_weight = fst init, linear_bias = snd init,
      bnn_training = True, bert_requires_grad = False, head_requires_grad = True\<rparr>"

text \<open>
  \<open>forward\<close>: the pooled output of the encoder through
  \<open>Sequential(Dropout(p=0.3), Linear(768, 1000))\<close>. Dropout draws from the generator,
  which is returned with the result.
\<close>

definition BertNeuralNetwork_forward ::
    "bool \<Rightarrow> BertNeuralNetwork \<Rightarrow> generator \<Rightarrow> encoding \<Rightarrow> (error + matrix) \<times> generator" where
  "BertNeuralNetwork_forward grad_enabled self gen X =
     (case bert self X of
        Inl e \<Rightarrow> (Inl e, gen)
      | Inr pooler_output \<Rightarrow>
          (let (dropped, gen') = Dropout_rows (3 / 10) (bnn_training self) gen pooler_output
           in case Linear_rows 768 1000 (linear_weight self) (linear_bias self) dropped of
                Inl e \<Rightarrow> (Inl e, gen')
              | Inr out \<Rightarrow>
                  (Inr \<lparr>rows = out,
                         grad = (grad_enabled \<and> (bert_requires_grad self \<or> head_requires_grad self))\<rparr>,
                   gen')))"

definition BertNeuralNetwork_predict ::
    "BertNeuralNetwork \<Rightarrow> generator \<Rightarrow> encoding \<Rightarrow> (error + matrix) \<times> generator" where
  "BertNeuralNetwork_predict self gen X = BertNeuralNetwork_forward False self gen X"

section \<open>JSON, arrays and the similarity index\<close>

text \<open>
  The content of a \<open>JSONResponse\<close>. \<open>response.body\<close> is its rendering and
  \<open>json.loads\<close> reads the rendering back: on a content of finite numbers, lists and
  string keys the two compose to the identity, so a response carries its content.
\<close>

datatype json =
    JNum real
  | JInt int
  | JStr string
  | JList "json list"
  | JObj "(string \<times> json) list"

datatype response = JSONResponse json

fun body :: "response \<Rightarrow> json" where
  "body (JSONResponse content) = content"

definition json_loads :: "json \<Rightarrow> json" where
  "json_loads b = b"

text \<open>\<open>d[key]\<close> on a parsed object.\<close>

fun getitem :: "json \<Rightarrow> string \<Rightarrow> error + json" where
  "getitem (JObj kvs) k = (case map_of kvs k of None \<Rightarrow> Inl KeyError | Some v \<Rightarrow> Inr v)"
| "getitem _ k = Inl KeyError"

text \<open>\<open>a.tolist()\<close> of a two-dimensional float array: a list of lists of floats.\<close>

definition tolist :: "real list list \<Rightarrow> json" where
  "tolist a = JList (map (\<lambda>row. JList (map JNum row)) a)"

definition tolist_int :: "int list list \<Rightarrow> json" where
  "tolist_int a = JList (map (\<lambda>row. JList (map JInt row)) a)"

text \<open>
  A numpy array of one or two dimensions. \<open>np.array\<close> of a list of numbers has one
  dimension; of a list of equally long lists of numbers, two; a ragged or non-numeric
  list raises.
\<close>

datatype ndarray = Array1 "real list" | Array2 "real list list"

fun number_of :: "json \<Rightarrow> real option" where
  "number_of (JNum x) = Some x"
| "number_of (JInt i) = Some (real_of_int i)"
| "number_of _ = None"

fun numbers_of :: "json list \<Rightarrow> real list option" where
  "numbers_of [] = Some []"
| "numbers_of (j # js) =
     (case number_of j of
        None \<Rightarrow> None
      | Some x \<Rightarrow> (case numbers_of js of None \<Rightarrow> None | Some xs \<Rightarrow> Some (x # xs)))"

fun rows_of :: "json list \<Rightarrow> real list list option" where
  "rows_of [] = Some []"
| "rows_of (JList r # js) =
     (case numbers_of r of
        None \<Rightarrow> None
      | Some x \<Rightarrow> (case rows_of js of None \<Rightarrow> None | Some xs \<Rightarrow> Some (x # xs)))"
| "rows_of (_ # js) = None"

fun np_array :: "json \<Rightarrow> error + ndarray" where
  "np_array (JList js) =
     (case numbers_of js of
        Some xs \<Rightarrow> Inr (Array1 xs)
      | None \<Rightarrow>
          (case rows_of js of
             Some rs \<Rightarrow> (if list_all (\<lambda>r. length r = length (hd rs)) rs
                         then Inr (Array2 rs) else Inl ValueError)
           | None \<Rightarrow> Inl ValueError))"
| "np_array _ = Inl ValueError"

text \<open>
  \<open>np.concatenate((a, b), axis=1)\<close>: the axis is checked against the first array, and
  an array of one dimension has no axis 1; then the arrays must have the same number of
  dimensions; two arrays of two dimensions need the same number of rows, and their rows
  are joined in order.
\<close>

fun concatenate_axis1 :: "ndarray \<Rightarrow> ndarray \<Rightarrow> error + ndarray" where
  "concatenate_axis1 (Array1 a) b = Inl AxisError"
| "concatenate_axis1 (Array2 a) (Array1 b) = Inl ValueError"
| "concatenate_axis1 (Array2 a) (Array2 b) =
     (if length a = length b then Inr (Array2 (map (\<lambda>(x, y). x @ y) (zip a b)))
      else Inl ValueError)"

text \<open>\<open>a.astype('float32')\<close>: the same values (rounding is outside this model).\<close>

definition astype_float32 :: "ndarray \<Rightarrow> ndarray" where
  "astype_float32 a = a"

text \<open>
  The similarity index is a pickled faiss index: its dimension \<open>d\<close>, the vectors it
  stores (a label is a position in them), the distance it compares by, and its search,
  which the model takes as a function from the query rows and \<open>k\<close> to the distances and
  the labels. \<open>index.search(x, k)\<close> needs a two-dimensional \<open>x\<close> and asserts that the
  width of \<open>x\<close> is \<open>d\<close>.
\<close>

record faiss_index =
  d :: nat
  xb :: "real list list"
  metric :: "real list \<Rightarrow> real list \<Rightarrow> real"
  search_fn :: "real list list \<Rightarrow> nat \<Rightarrow> real list list \<times> int list list"

fun search :: "faiss_index \<Rightarrow> ndarray \<Rightarrow> nat \<Rightarrow> error + real list list \<times> int list list" where
  "search index (Array2 x) k =
     (if list_all (\<lambda>r. length r = d index) x then Inr (search_fn index x k)
      else Inl AssertionError)"
| "search index (Array1 x) k = Inl ValueError"

section \<open>The process state and the request handlers\<close>

text \<open>
  The module-level globals of \<open>api.py\<close> that a request reads, and the default random
  generator of torch, which dropout draws from.
\<close>

type_synonym tokenizer = "string \<Rightarrow> encoding"

record app =
  tokenizer :: tokenizer
  image_feature_extraction_model :: FeatureExtractor
  text_feature_extraction_model :: BertNeuralNetwork
  index :: faiss_index
  default_generator :: generator

text \<open>An upload: bytes that \<open>Image.open\<close> decodes to an image or rejects.\<close>

datatype upload_file = NotAnImage | Encoded pil_image

fun Image_open :: "upload_file \<Rightarrow> error + pil_image" where
  "Image_open NotAnImage = Inl UnidentifiedImageError"
| "Image_open (Encoded im) = Inr im"

text \<open>
  Grad mode is on unless the code turns it off, and no handler does: calling a module
  runs its \<open>forward\<close> under the ambient mode.
\<close>

definition ambient_grad_mode :: bool where
  "ambient_grad_mode = True"

text \<open>
  \<open>predict_image\<close>, lines 139 to 148: the tensor the image model returns for the upload.
\<close>

definition predict_image_embeddings :: "app \<Rightarrow> upload_file \<Rightarrow> (error + matrix) \<times> app" where
  "predict_image_embeddings st upload =
     (case Image_open upload of
        Inl e \<Rightarrow> (Inl e, st)
      | Inr pil_image \<Rightarrow>
          (case process_image_as_pil pil_image 224 of
             Inl e \<Rightarrow> (Inl e, st)
           | Inr image_tensor \<Rightarrow>
               (let (feature_embeddings, model) =
                      FeatureExtractor_forward ambient_grad_mode
                        (image_feature_extraction_model st) (to_device image_tensor)
                in (feature_embeddings, st\<lparr>image_feature_extraction_model := model\<rparr>))))"

text \<open>Lines 151 to 161, shared by both handlers: from the model's tensor to the response.\<close>

definition features_response :: "matrix \<Rightarrow> error + response" where
  "features_response t =
     (case numpy (detach (to_device t)) of
        Inl e \<Rightarrow> Inl e
      | Inr a \<Rightarrow> Inr (JSONResponse (JObj [(''features'', tolist a)])))"

definition predict_image :: "app \<Rightarrow> upload_file \<Rightarrow> (error + response) \<times> app" where
  "predict_image st upload =
     (case predict_image_embeddings st upload of
        (Inl e, st') \<Rightarrow> (Inl e, st')
      | (Inr feature_embeddings, st') \<Rightarrow> (features_response feature_embeddings, st'))"

text \<open>\<open>t.view(1, -1)\<close>: all elements in one row.\<close>

definition view_1 :: "int list list \<Rightarrow> int list list" where
  "view_1 t = [concat t]"

text \<open>\<open>predict_text\<close>, lines 165 to 172: the tensor the text model returns for the text.\<close>

definition predict_text_embeddings :: "app \<Rightarrow> string \<Rightarrow> (error + matrix) \<times> app" where
  "predict_text_embeddings st txt =
     (let tokenized_text = tokenizer st txt;
          input_dictionary =
            \<lparr>input_ids = to_device (view_1 (input_ids tokenized_text)),
             attention_mask = to_device (view_1 (attention_mask tokenized_text))\<rparr>;
          (model_output, gen) =
            BertNeuralNetwork_forward ambient_grad_mode (text_feature_extraction_model st)
              (default_generator st) input_dictionary
      in (model_output, st\<lparr>default_generator := gen\<rparr>))"

definition predict_text :: "app \<Rightarrow> string \<Rightarrow> (error + response) \<times> app" where
  "predict_text st txt =
     (case predict_text_embeddings st txt of
        (Inl e, st') \<Rightarrow> (Inl e, st')
      | (Inr model_output, st') \<Rightarrow> (features_response model_output, st'))"

text \<open>The embedding array a handler's response carries: \<open>np.array(json.loads(body)['features'])\<close>.\<close>

definition features_array :: "response \<Rightarrow> error + ndarray" where
  "features_array r =
     (case getitem (json_loads (body r)) ''features'' of
        Inl e \<Rightarrow> Inl e
      | Inr features \<Rightarrow> np_array features)"

text \<open>
  \<open>predict_combined\<close>, lines 188 to 207: the query array. The image handler runs first,
  then the text handler, each on the state the previous step left. (\<open>print(text)\<close> on
  line 186 writes to standard output, which is no part of this state.)
\<close>

definition combined_embeddings :: "app \<Rightarrow> upload_file \<Rightarrow> string \<Rightarrow> (error + ndarray) \<times> app" where
  "combined_embeddings st upload txt =
     (case predict_image st upload of
        (Inl e, st1) \<Rightarrow> (Inl e, st1)
      | (Inr image_response, st1) \<Rightarrow>
          (case features_array image_response of
             Inl e \<Rightarrow> (Inl e, st1)
           | Inr image_embeddings \<Rightarrow>
               (case predict_text st1 txt of
                  (Inl e, st2) \<Rightarrow> (Inl e, st2)
                | (Inr text_response, st2) \<Rightarrow>
                    (case features_array text_response of
                       Inl e \<Rightarrow> (Inl e, st2)
                     | Inr text_embeddings \<Rightarrow>
                         (case concatenate_axis1 image_embeddings text_embeddings of
                            Inl e \<Rightarrow> (Inl e, st2)
                          | Inr embeddings \<Rightarrow> (Inr (astype_float32 embeddings), st2))))))"

text \<open>Lines 210 to 217: the search for 3 neighbours and the response.\<close>

definition predict_combined :: "app \<Rightarrow> upload_file \<Rightarrow> string \<Rightarrow> (error + response) \<times> app" where
  "predict_combined st upload txt =
     (case combined_embeddings st upload txt of
        (Inl e, st') \<Rightarrow> (Inl e, st')
      | (Inr embeddings, st') \<Rightarrow>
          (case search (index st') embeddings 3 of
             Inl e \<Rightarrow> (Inl e, st')
           | Inr (distances, nearest_vectors) \<Rightarrow>
               (Inr (JSONResponse (JObj [(''similar_index'', tolist_int nearest_vectors)])), st')))"

section \<open>Startup\<close>

text \<open>
  What the module-level code of \<open>api.py\<close> reads when the process starts. \<open>None\<close> is
  an artifact that is absent or that cannot be read. A state dictionary holds the values
  of a module's parameters and buffers; \<open>load_state_dict\<close> raises when its keys are not
  the module's or a tensor has other sizes than the module's.
\<close>

record image_state_dict =
  sd_resnet50 :: resnet
  sd_buffers :: buffers
  sd_image_keys_match :: bool

record text_state_dict =
  sd_bert :: bert_model
  sd_linear_weight :: "real list list"
  sd_linear_bias :: "real list"
  sd_text_keys_match :: bool

record environment =
  pretrained_tokenizer :: "tokenizer option"
  decoder_pickle :: "decoder option"
  pretrained_resnet50 :: "(resnet \<times> buffers) option"
  pretrained_bert :: "bert_model option"
  initial_linear :: "(nat \<Rightarrow> nat \<Rightarrow> real) \<times> (nat \<Rightarrow> real)"
  image_model_pt :: "image_state_dict option"
  text_model_pt :: "text_state_dict option"
  faiss_pickle :: "faiss_index option"
  initial_generator :: generator

definition FeatureExtractor_load_state_dict ::
    "FeatureExtractor \<Rightarrow> image_state_dict \<Rightarrow> FeatureExtractor option" where
  "FeatureExtractor_load_state_dict self sd =
     (if sd_image_keys_match sd
      then Some (self\<lparr>resnet50 := sd_resnet50 sd, fe_buffers := sd_buffers sd\<rparr>)
      else None)"

definition BertNeuralNetwork_load_state_dict ::
    "BertNeuralNetwork \<Rightarrow> text_state_dict \<Rightarrow> BertNeuralNetwork option" where
  "BertNeuralNetwork_load_state_dict self sd =
     (if sd_text_keys_match sd
         \<and> length (sd_linear_weight sd) = 1000
         \<and> list_all (\<lambda>r. length r = 768) (sd_linear_weight sd)
         \<and> length (sd_linear_bias sd) = 1000
      then Some (self\<lparr>bert := sd_bert sd,
                       linear_weight := (\<lambda>j i. sd_linear_weight sd ! j ! i),
                       linear_bias := (\<lambda>j. sd_linear_bias sd ! j)\<rparr>)
      else None)"

text \<open>
  The body of the first \<open>try\<close> (lines 91 to 113): \<open>None\<close> when any statement raises.
\<close>

definition load_models :: "environment \<Rightarrow> (FeatureExtractor \<times> BertNeuralNetwork) option" where
  "load_models env =
     (case decoder_pickle env of
        None \<Rightarrow> None
      | Some dec \<Rightarrow>
     (case pretrained_resnet50 env of
        None \<Rightarrow> None
      | Some backbone \<Rightarrow>
     (case pretrained_bert env of
        None \<Rightarrow> None
      | Some encoder \<Rightarrow>
     (let image_model = to_device (FeatureExtractor_init backbone (Some dec));
          text_model = to_device (BertNeuralNetwork_init encoder (initial_linear env) (Some dec))
      in
     (case image_model_pt env of
        None \<Rightarrow> None
      | Some image_model_parameters \<Rightarrow>
     (case FeatureExtractor_load_state_dict image_model image_model_parameters of
        None \<Rightarrow> None
      | Some image_model' \<Rightarrow>
     (case text_model_pt env of
        None \<Rightarrow> None
      | Some text_model_parameters \<Rightarrow>
     (case BertNeuralNetwork_load_state_dict text_model text_model_parameters of
        None \<Rightarrow> None
      | Some text_model' \<Rightarrow> Some (image_model', text_model')))))))))"

text \<open>
  The module-level code up to \<open>app = FastAPI()\<close>: the tokenizer (line 53, outside any
  \<open>try\<close>), the first \<open>try\<close>, whose bare \<open>except\<close> raises \<open>OSError\<close>, and the
  second (lines 118 to 124), likewise. The handlers are registered only after all of it.
  The choice of the device changes where the values are held, not the values.
\<close>

definition startup :: "environment \<Rightarrow> error + app" where
  "startup env =
     (case pretrained_tokenizer env of
        None \<Rightarrow> Inl (OSError ''bert-base-cased'')
      | Some tok \<Rightarrow>
     (case load_models env of
        None \<Rightarrow> Inl (OSError
          ''No Feature Extraction model found. Check that you have the decoder and the model in the correct location.'')
      | Some (image_model, text_model) \<Rightarrow>
     (case faiss_pickle env of
        None \<Rightarrow> Inl (OSError
          ''No Image model found. Check that you have the encoder and the model in the correct location.'')
      | Some idx \<Rightarrow>
          Inr \<lparr>tokenizer = tok,
               image_feature_extraction_model = image_model,
               text_feature_extraction_model = text_model,
               index = idx,
               default_generator = initial_generator env\<rparr>)))"

section \<open>Contracts of the library parts and predicates of the specification\<close>

text \<open>
  What torchvision documents of ResNet-50: when the pass over a batch of \<open>n\<close> images
  returns, it returns \<open>n\<close> rows of 1000 logits, in either mode and whatever the buffers.
\<close>

definition resnet50_contract :: "resnet \<Rightarrow> bool" where
  "resnet50_contract net =
     (\<forall>training bufs n c h w xs out.
        fst (net training bufs [n, c, h, w] xs) = Inr out \<longrightarrow>
        length out = n \<and> list_all (\<lambda>r. length r = 1000) out)"

text \<open>The encoder returns one pooled row per row of token ids.\<close>

definition bert_contract :: "bert_model \<Rightarrow> bool" where
  "bert_contract enc = (\<forall>X out. enc X = Inr out \<longrightarrow> length out = length (input_ids X))"

text \<open>The distance from a query to the stored vector a label names.\<close>

definition label_distance :: "faiss_index \<Rightarrow> real list \<Rightarrow> int \<Rightarrow> real" where
  "label_distance idx q l = metric idx q (xb idx ! nat l)"

text \<open>
  A row of labels is the \<open>k\<close> nearest stored vectors of a query, nearest first: it has
  \<open>k\<close> entries; with \<open>ntotal\<close> vectors stored, the first \<open>min k ntotal\<close> entries are
  labels of stored vectors, all different, and the later entries are \<open>-1\<close>; the labels
  come in the order of increasing distance to the query; and no stored vector that the
  row leaves out is nearer to the query than one the row holds.
\<close>

definition nearest_first :: "faiss_index \<Rightarrow> real list \<Rightarrow> nat \<Rightarrow> int list \<Rightarrow> bool" where
  "nearest_first idx q k labels =
     (length labels = k
      \<and> (\<forall>j<k. if j < length (xb idx)
                 then 0 \<le> labels ! j \<and> nat (labels ! j) < length (xb idx)
                 else labels ! j = - 1)
      \<and> distinct (take (min k (length (xb idx))) labels)
      \<and> (\<forall>j j'. j \<le> j' \<and> j' < min k (length (xb idx)) \<longrightarrow>
             label_distance idx q (labels ! j) \<le> label_distance idx q (labels ! j'))
      \<and> (\<forall>i<length (xb idx). int i \<notin> set labels \<longrightarrow>
             (\<forall>j<min k (length (xb idx)).
                label_distance idx q (labels ! j) \<le> metric idx q (xb idx ! i))))"

text \<open>
  The contract of \<open>search\<close> (specification, 4.4; faiss documents it for an exact index):
  for each query, the row of labels holds the \<open>k\<close> nearest stored vectors, nearest first,
  and the row of distances holds the distances of those labels.
\<close>

definition index_contract :: "faiss_index \<Rightarrow> bool" where
  "index_contract idx =
     (\<forall>x k. length (fst (search_fn idx x k)) = length x
          \<and> length (snd (search_fn idx x k)) = length x
          \<and> (\<forall>n<length x.
                 nearest_first idx (x ! n) k (snd (search_fn idx x k) ! n)
               \<and> length (fst (search_fn idx x k) ! n) = k
               \<and> (\<forall>j<min k (length (xb idx)).
                      fst (search_fn idx x k) ! n ! j
                        = label_distance idx (x ! n) (snd (search_fn idx x k) ! n ! j))))"

text \<open>The specification's reading of \<open>"features"\<close>: a flat list of \<open>n\<close> floats.\<close>

fun is_float :: "json \<Rightarrow> bool" where
  "is_float (JNum x) = True"
| "is_float _ = False"

fun flat_floats :: "nat \<Rightarrow> json \<Rightarrow> bool" where
  "flat_floats n (JList xs) = (length xs = n \<and> list_all is_float xs)"
| "flat_floats n _ = False"

section \<open>A concrete instance\<close>

text \<open>
  Two images, one black of 50 by 100 pixels and one white of 1000 by 1, and small
  stand-ins for the library parts, to run the handlers on: a backbone that takes
  batches of three-channel images, returns the logit 1 for every class and, as batch
  normalisation does in training mode, advances its buffer on every training-mode pass
  and raises on a single image too small to leave more than one value per channel; a
  backbone that returns the elements it is given, to show what a module passes to it; a
  tokenizer that maps each character to its code; an encoder whose pooled output is 1
  everywhere; a linear layer with every weight \<open>1/768\<close> and every bias \<open>1/2\<close>; a
  generator whose first 768 outcomes are "drop" and whose later ones are "keep"; a
  brute-force index over three stored vectors, which returns for each query the \<open>k\<close>
  nearest by squared distance, nearest first, and fills up with the label \<open>-1\<close> when
  fewer than \<open>k\<close> are stored.
\<close>

definition black_50x100 :: pil_image where
  "black_50x100 = \<lparr>im_width = 50, im_height = 100, getpixel = (\<lambda>x y. (0, 0, 0))\<rparr>"


definition example_resnet :: resnet where
  "example_resnet training bufs sizes xs =
     (case sizes of
        [n, c, h, w] \<Rightarrow>
          if c \<noteq> 3 then (Inl RuntimeError, bufs)
          else if training \<and> n = 1 \<and> h \<le> 32 \<and> w \<le> 32
               then (Inl ValueError, map (\<lambda>b. b + 1) bufs)
          else (Inr (replicate n (replicate 1000 1)),
                if training then map (\<lambda>b. b + 1) bufs else bufs)
      | _ \<Rightarrow> (Inl RuntimeError, bufs))"

definition echo_resnet :: resnet where
  "echo_resnet training bufs sizes xs = (Inr [xs], bufs)"

definition echo_model :: FeatureExtractor where
  "echo_model = FeatureExtractor_init (echo_resnet, []) None"

definition three_bytes :: tensor where
  "three_bytes = \<lparr>shape = [1, 3, 1, 1], storage = ByteStorage [1, 128, 255],
                  requires_grad = False\<rparr>"

definition example_tokenizer :: tokenizer where
  "example_tokenizer txt =
     \<lparr>input_ids = [map (\<lambda>c. int (of_char c)) txt], attention_mask = [map (\<lambda>c. 1) txt]\<rparr>"

definition example_bert :: bert_model where
  "example_bert X = Inr (map (\<lambda>ids. replicate 768 1) (input_ids X))"

definition example_weight :: "real list list" where
  "example_weight = replicate 1000 (replicate 768 (1 / 768))"

definition example_bias :: "real list" where
  "example_bias = replicate 1000 (1 / 2)"

definition example_generator :: generator where
  "example_generator i = (i < 768)"

definition l2sq :: "real list \<Rightarrow> real list \<Rightarrow> real" where
  "l2sq x y = sum_list (map (\<lambda>(a, b). (a - b) ^ 2) (zip x y))"

definition flat_search_row :: "real list list \<Rightarrow> nat \<Rightarrow> real list \<Rightarrow> (real \<times> int) list" where
  "flat_search_row vs k q =
     (let ds = sort_key fst (map (\<lambda>i. (l2sq q (vs ! i), int i)) [0..<length vs]);
          pad = replicate (k - length vs) (if ds = [] then 0 else fst (last ds), - 1)
      in take k (ds @ pad))"

definition flat_search ::
    "real list list \<Rightarrow> real list list \<Rightarrow> nat \<Rightarrow> real list list \<times> int list list" where
  "flat_search vs x k =
     (let res = map (flat_search_row vs k) x
      in (map (map fst) res, map (map snd) res))"

definition IndexFlatL2 :: "nat \<Rightarrow> real list list \<Rightarrow> faiss_index" where
  "IndexFlatL2 n vs = \<lparr>d = n, xb = vs, metric = l2sq, search_fn = flat_search vs\<rparr>"

definition example_vectors :: "real list list" where
  "example_vectors =
     [replicate 2000 0, replicate 2000 1, replicate 1000 1 @ replicate 1000 (1 / 2)]"

definition example_index :: faiss_index where
  "example_index = IndexFlatL2 2000 example_vectors"

definition example_decoder :: decoder where
  "example_decoder = [(0, ''Home & Garden''), (1, ''Baby & Kids Stuff'')]"

definition example_environment :: environment where
  "example_environment =
     \<lparr>pretrained_tokenizer = Some example_tokenizer,
      decoder_pickle = Some example_decoder,
      pretrained_resnet50 = Some (example_resnet, [0]),
      pretrained_bert = Some example_bert,
      initial_linear = (\<lambda>j i. 0, \<lambda>j. 0),
      image_model_pt = Some \<lparr>sd_resnet50 = example_resnet, sd_buffers = [0],
                              sd_image_keys_match = True\<rparr>,
      text_model_pt = Some \<lparr>sd_bert = example_bert, sd_linear_weight = example_weight,
                             sd_linear_bias = example_bias, sd_text_keys_match = True\<rparr>,
      faiss_pickle = Some example_index,
      initial_generator = example_generator\<rparr>"

text \<open>The state \<open>startup\<close> builds from that environment.\<close>

definition example_app :: app where
  "example_app =
     \<lparr>tokenizer = example_tokenizer,
      image_feature_extraction_model =
        \<lparr>resnet50 = example_resnet, fe_buffers = [0], fe_training = True,
         fe_requires_grad = True, fe_decoder = Some example_decoder\<rparr>,
      text_feature_extraction_model =
        \<lparr>bert = example_bert,
         linear_weight = (\<lambda>j i. example_weight ! j ! i),
         linear_bias = (\<lambda>j. example_bias ! j),
         bnn_training = True, bert_requires_grad = False, head_requires_grad = True\<rparr>,
      index = example_index,
      default_generator = example_generator\<rparr>"

text \<open>The tensor the preprocessor makes of the black 50 by 100 image.\<close>

definition example_image_tensor :: tensor where
  "example_image_tensor =
     unsqueeze0 (PILToTensor (paste (Image_new 224 224) (resample black_50x100 112 224) (56, 0)))"

section \<open>Shape of the preprocessed image\<close>

lemma length_concat_const:
  "(\<And>x. x \<in> set xs \<Longrightarrow> length (f x) = n) \<Longrightarrow> length (concat (map f xs)) = length xs * n"
  by (induction xs) auto

lemma PILToTensor_shape: "shape (PILToTensor im) = [3, im_height im, im_width im]"
  by (simp add: PILToTensor_def)

lemma PILToTensor_numel: "numel (storage (PILToTensor im)) = 3 * (im_height im * im_width im)"
proof -
  have row: "length (concat (map (\<lambda>y. map (\<lambda>x. channel c (getpixel im x y)) [0..<im_width im])
                 [0..<im_height im])) = im_height im * im_width im" for c
    by (simp add: length_concat_const)
  show ?thesis
    by (simp add: PILToTensor_def length_concat_const row)
qed

lemma resize_image_size:
  assumes "resize_image final_size im = Inr out"
  shows "im_width out = final_size \<and> im_height out = final_size"
  using assms
  by (auto simp: resize_image_def Let_def paste_def Image_new_def split: if_splits sum.splits)





section \<open>Lemmas about the handlers\<close>

lemma process_image_as_pil_Inr:
  assumes "process_image_as_pil img image_size = Inr t"
  shows "shape t = [1, 3, image_size, image_size]"
    and "\<exists>bs. storage t = ByteStorage bs \<and> length bs = 3 * (image_size * image_size)"
    and "requires_grad t = False"
proof -
  from assms obtain out where out: "resize_image image_size img = Inr out"
    and t: "t = unsqueeze0 (PILToTensor out)"
    by (auto simp: process_image_as_pil_def split: sum.splits)
  from resize_image_size [OF out] have sz: "im_width out = image_size" "im_height out = image_size"
    by simp_all
  show "shape t = [1, 3, image_size, image_size]"
    by (simp add: t unsqueeze0_def PILToTensor_shape sz)
  have "numel (storage (PILToTensor out)) = 3 * (image_size * image_size)"
    by (simp add: PILToTensor_numel sz)
  then show "\<exists>bs. storage t = ByteStorage bs \<and> length bs = 3 * (image_size * image_size)"
    by (cases "storage (PILToTensor out)") (auto simp: t unsqueeze0_def PILToTensor_def)
  show "requires_grad t = False"
    by (simp add: t unsqueeze0_def PILToTensor_def)
qed

lemma forward_bytes:
  assumes "storage t = ByteStorage bs"
  shows "FeatureExtractor_forward g self t =
     (case resnet50_call self (shape t) (bytes_as_floats bs) of
        (Inl e, bufs) \<Rightarrow> (Inl e, self\<lparr>fe_buffers := bufs\<rparr>)
      | (Inr out, bufs) \<Rightarrow>
          (Inr \<lparr>rows = out, grad = (g \<and> (fe_requires_grad self \<or> requires_grad t))\<rparr>,
           self\<lparr>fe_buffers := bufs\<rparr>))"
  using assms
  by (simp add: FeatureExtractor_forward_def FeatureExtractor_layers_def float_cast_def Let_def
        split: prod.splits sum.splits)

lemma features_response_eq:
  "features_response t = Inr (JSONResponse (JObj [(''features'', tolist (rows t))]))"
  by (simp add: features_response_def numpy_def detach_def to_device_def)

lemma numbers_of_JNum: "numbers_of (map JNum xs) = Some xs"
  by (induction xs) auto

lemma numbers_of_rows: "numbers_of (map (\<lambda>row. JList (map JNum row)) a) = (if a = [] then Some [] else None)"
  by (cases a) auto

lemma rows_of_tolist: "rows_of (map (\<lambda>row. JList (map JNum row)) a) = Some a"
  by (induction a) (auto simp: numbers_of_JNum)

lemma features_array_single:
  "features_array (JSONResponse (JObj [(''features'', tolist [row])])) = Inr (Array2 [row])"
  by (simp add: features_array_def json_loads_def tolist_def numbers_of_JNum)

lemma features_array_tolist:
  "features_array (JSONResponse (JObj [(''features'', tolist a)])) =
     (if a = [] then Inr (Array1 [])
      else if list_all (\<lambda>r. length r = length (hd a)) a then Inr (Array2 a) else Inl ValueError)"
  by (simp add: features_array_def json_loads_def tolist_def numbers_of_rows rows_of_tolist)

lemma Linear_rows_Inr:
  assumes "Linear_rows n_in n_out W b xs = Inr ys"
  shows "length ys = length xs \<and> list_all (\<lambda>r. length r = n_out) ys \<and> list_all (\<lambda>r. length r = n_in) xs"
  using assms
proof (induction xs arbitrary: ys)
  case Nil
  then show ?case by simp
next
  case (Cons x xs)
  then show ?case
    by (auto simp: Linear_def split: sum.splits if_splits)
qed

lemma Dropout_length: "length (fst (Dropout p tr gen x)) = length x"
  by (simp add: Dropout_def bernoulli_def Let_def)

lemma Dropout_rows_length:
  "length (fst (Dropout_rows p tr gen xs)) = length xs"
  by (induction xs arbitrary: gen) (simp_all add: Let_def case_prod_beta)

lemma predict_image_embeddings_tensor:
  assumes t: "process_image_as_pil im 224 = Inr t" and bs: "storage t = ByteStorage bs"
  shows "predict_image_embeddings st (Encoded im) =
          (case resnet50_call (image_feature_extraction_model st) [1, 3, 224, 224]
                  (bytes_as_floats bs) of
             (Inl e, bufs) \<Rightarrow>
               (Inl e, st\<lparr>image_feature_extraction_model :=
                           (image_feature_extraction_model st)\<lparr>fe_buffers := bufs\<rparr>\<rparr>)
           | (Inr out, bufs) \<Rightarrow>
               (Inr \<lparr>rows = out, grad = fe_requires_grad (image_feature_extraction_model st)\<rparr>,
                st\<lparr>image_feature_extraction_model :=
                     (image_feature_extraction_model st)\<lparr>fe_buffers := bufs\<rparr>\<rparr>))"
proof -
  from process_image_as_pil_Inr [OF t] have
    sh: "shape t = [1, 3, 224, 224]" and rg: "requires_grad t = False"
    by auto
  show ?thesis
    by (simp add: predict_image_embeddings_def t to_device_def forward_bytes [OF bs] sh rg
          ambient_grad_mode_def split: prod.splits sum.splits)
qed

lemma predict_image_embeddings_Inr:
  assumes "predict_image_embeddings st upload = (Inr e, st')"
  shows "\<exists>im t bs out.
           upload = Encoded im
         \<and> process_image_as_pil im 224 = Inr t
         \<and> storage t = ByteStorage bs
         \<and> fst (resnet50_call (image_feature_extraction_model st) [1, 3, 224, 224]
                  (bytes_as_floats bs)) = Inr out
         \<and> e = \<lparr>rows = out, grad = fe_requires_grad (image_feature_extraction_model st)\<rparr>
         \<and> st' = st\<lparr>image_feature_extraction_model :=
                      (image_feature_extraction_model st)
                        \<lparr>fe_buffers := snd (resnet50_call (image_feature_extraction_model st)
                                             [1, 3, 224, 224] (bytes_as_floats bs))\<rparr>\<rparr>"
proof -
  from assms obtain im where up: "upload = Encoded im"
    by (cases upload) (auto simp: predict_image_embeddings_def)
  from assms up obtain t where t: "process_image_as_pil im 224 = Inr t"
    by (cases "process_image_as_pil im 224") (auto simp: predict_image_embeddings_def)
  from process_image_as_pil_Inr(2) [OF t] obtain bs where bs: "storage t = ByteStorage bs"
    by auto
  from assms [unfolded up predict_image_embeddings_tensor [OF t bs]]
  have "\<exists>out. fst (resnet50_call (image_feature_extraction_model st) [1, 3, 224, 224]
                  (bytes_as_floats bs)) = Inr out
         \<and> e = \<lparr>rows = out, grad = fe_requires_grad (image_feature_extraction_model st)\<rparr>
         \<and> st' = st\<lparr>image_feature_extraction_model :=
                      (image_feature_extraction_model st)
                        \<lparr>fe_buffers := snd (resnet50_call (image_feature_extraction_model st)
                                             [1, 3, 224, 224] (bytes_as_floats bs))\<rparr>\<rparr>"
    by (auto split: prod.splits sum.splits)
  with up t bs show ?thesis by blast
qed

lemma single_row:
  assumes "length out = 1" and "list_all (\<lambda>r. length r = n) out"
  shows "\<exists>row. out = [row] \<and> length row = n"
  using assms by (cases out) auto

lemma predict_image_Inr:
  assumes "predict_image st upload = (Inr r, st')"
  shows "\<exists>e. predict_image_embeddings st upload = (Inr e, st')
           \<and> r = JSONResponse (JObj [(''features'', tolist (rows e))])"
  using assms
  by (auto simp: predict_image_def features_response_eq split: prod.splits sum.splits)

lemma predict_text_Inr:
  assumes "predict_text st txt = (Inr r, st')"
  shows "\<exists>e. predict_text_embeddings st txt = (Inr e, st')
           \<and> r = JSONResponse (JObj [(''features'', tolist (rows e))])"
  using assms
  by (auto simp: predict_text_def features_response_eq split: prod.splits sum.splits)

lemma predict_text_embeddings_Inr:
  assumes "predict_text_embeddings st txt = (Inr e, st')"
  shows "\<exists>pooled.
           bert (text_feature_extraction_model st)
             \<lparr>input_ids = view_1 (input_ids (tokenizer st txt)),
              attention_mask = view_1 (attention_mask (tokenizer st txt))\<rparr> = Inr pooled
         \<and> length (rows e) = length pooled
         \<and> list_all (\<lambda>r. length r = 1000) (rows e)
         \<and> st' = st\<lparr>default_generator :=
               snd (Dropout_rows (3 / 10) (bnn_training (text_feature_extraction_model st))
                      (default_generator st) pooled)\<rparr>"
proof -
  let ?m = "text_feature_extraction_model st"
  let ?X = "\<lparr>input_ids = view_1 (input_ids (tokenizer st txt)),
              attention_mask = view_1 (attention_mask (tokenizer st txt))\<rparr>"
  from assms obtain pooled where p: "bert ?m ?X = Inr pooled"
    by (cases "bert ?m ?X")
       (auto simp: predict_text_embeddings_def BertNeuralNetwork_forward_def Let_def to_device_def)
  obtain dropped gen' where dr: "Dropout_rows (3 / 10) (bnn_training ?m) (default_generator st) pooled = (dropped, gen')"
    by (cases "Dropout_rows (3 / 10) (bnn_training ?m) (default_generator st) pooled") auto
  from assms p dr obtain out where lin: "Linear_rows 768 1000 (linear_weight ?m) (linear_bias ?m) dropped = Inr out"
    by (cases "Linear_rows 768 1000 (linear_weight ?m) (linear_bias ?m) dropped")
       (auto simp: predict_text_embeddings_def BertNeuralNetwork_forward_def Let_def to_device_def)
  from assms p dr lin have e: "rows e = out" "st' = st\<lparr>default_generator := gen'\<rparr>"
    by (auto simp: predict_text_embeddings_def BertNeuralNetwork_forward_def Let_def to_device_def
          ambient_grad_mode_def)
  from Dropout_rows_length [of "3 / 10" "bnn_training ?m" "default_generator st" pooled] dr
  have "length dropped = length pooled" by simp
  with Linear_rows_Inr [OF lin] e p dr show ?thesis by auto
qed


lemma predict_image_single_row:
  assumes c: "resnet50_contract (resnet50 (image_feature_extraction_model st))"
      and p: "predict_image st upload = (Inr r, st')"
  shows "\<exists>row. r = JSONResponse (JObj [(''features'', tolist [row])]) \<and> length row = 1000"
proof -
  from predict_image_Inr [OF p] obtain e where
    e: "predict_image_embeddings st upload = (Inr e, st')"
    and r: "r = JSONResponse (JObj [(''features'', tolist (rows e))])" by blast
  from predict_image_embeddings_Inr [OF e] obtain bs out where
    run: "fst (resnet50_call (image_feature_extraction_model st) [1, 3, 224, 224]
                  (bytes_as_floats bs)) = Inr out"
    and out: "rows e = out" by auto
  from c run have "length out = 1 \<and> list_all (\<lambda>r. length r = 1000) out"
    unfolding resnet50_contract_def resnet50_call_def by blast
  with out have "length (rows e) = 1" "list_all (\<lambda>r. length r = 1000) (rows e)" by simp_all
  from single_row [OF this] obtain row where "rows e = [row]" "length row = 1000" by blast
  with r show ?thesis by auto
qed

lemma predict_image_frame:
  "tokenizer (snd (predict_image st upload)) = tokenizer st
   \<and> text_feature_extraction_model (snd (predict_image st upload)) = text_feature_extraction_model st
   \<and> index (snd (predict_image st upload)) = index st
   \<and> default_generator (snd (predict_image st upload)) = default_generator st"
  by (auto simp: predict_image_def predict_image_embeddings_def Let_def
        split: sum.splits prod.splits)

lemma predict_text_reads:
  assumes "tokenizer st1 = tokenizer st" 
      and "text_feature_extraction_model st1 = text_feature_extraction_model st"
      and "default_generator st1 = default_generator st"
  shows "fst (predict_text st1 txt) = fst (predict_text st txt)"
  using assms
  by (auto simp: predict_text_def predict_text_embeddings_def Let_def
        split: sum.splits prod.splits)

lemma predict_text_frame:
  "tokenizer (snd (predict_text st txt)) = tokenizer st
   \<and> text_feature_extraction_model (snd (predict_text st txt)) = text_feature_extraction_model st
   \<and> image_feature_extraction_model (snd (predict_text st txt)) = image_feature_extraction_model st
   \<and> index (snd (predict_text st txt)) = index st"
  by (auto simp: predict_text_def predict_text_embeddings_def Let_def
        split: sum.splits prod.splits)

lemma predict_image_writes_buffers:
  assumes "predict_image st upload = (Inr r, st')"
  shows "\<exists>bs. image_feature_extraction_model st' =
           (image_feature_extraction_model st)
             \<lparr>fe_buffers := snd (resnet50_call (image_feature_extraction_model st)
                                  [1, 3, 224, 224] (bytes_as_floats bs))\<rparr>"
proof -
  from predict_image_Inr [OF assms] obtain e where
    "predict_image_embeddings st upload = (Inr e, st')" by blast
  from predict_image_embeddings_Inr [OF this] show ?thesis by auto
qed

lemma predict_combined_frame:
  "tokenizer (snd (predict_combined st upload txt)) = tokenizer st
   \<and> text_feature_extraction_model (snd (predict_combined st upload txt))
       = text_feature_extraction_model st
   \<and> index (snd (predict_combined st upload txt)) = index st"
proof -
  have a: "tokenizer (snd (combined_embeddings st upload txt)) = tokenizer st
   \<and> text_feature_extraction_model (snd (combined_embeddings st upload txt))
       = text_feature_extraction_model st
   \<and> index (snd (combined_embeddings st upload txt)) = index st"
    using predict_image_frame [of st upload]
      predict_text_frame [of "snd (predict_image st upload)" "txt"]
    by (auto simp: combined_embeddings_def split: sum.splits prod.splits)
  then show ?thesis
    by (auto simp: predict_combined_def split: sum.splits prod.splits)
qed

lemma predict_text_rows:
  assumes p: "predict_text st txt = (Inr r, st')"
  shows "\<exists>a. r = JSONResponse (JObj [(''features'', tolist a)])
            \<and> list_all (\<lambda>r. length r = 1000) a"
proof -
  from predict_text_Inr [OF p] obtain e where
    e: "predict_text_embeddings st txt = (Inr e, st')"
    and r: "r = JSONResponse (JObj [(''features'', tolist (rows e))])" by blast
  from predict_text_embeddings_Inr [OF e] have "list_all (\<lambda>r. length r = 1000) (rows e)" by blast
  with r show ?thesis by blast
qed

lemma concatenate_single:
  assumes "features_array (JSONResponse (JObj [(''features'', tolist a)])) = Inr ta"
      and "concatenate_axis1 (Array2 [x]) ta = Inr q"
  shows "\<exists>y. a = [y] \<and> ta = Array2 [y] \<and> q = Array2 [x @ y]"
proof -
  from assms(2) obtain b where ta: "ta = Array2 b" and len: "length b = 1"
    and q: "q = Array2 (map (\<lambda>(x, y). x @ y) (zip [x] b))"
    by (cases ta) (auto split: if_splits)
  from assms(1) ta have "a = b"
    by (auto simp: features_array_tolist split: if_splits)
  from len obtain y where "b = [y]" by (cases b) auto
  with \<open>a = b\<close> ta q show ?thesis by simp
qed

lemma combined_embeddings_Inr:
  assumes c: "resnet50_contract (resnet50 (image_feature_extraction_model st))"
      and q: "combined_embeddings st upload txt = (Inr q, st2)"
  shows "\<exists>image_row text_row st1.
           predict_image st upload =
             (Inr (JSONResponse (JObj [(''features'', tolist [image_row])])), st1)
         \<and> predict_text st1 txt =
             (Inr (JSONResponse (JObj [(''features'', tolist [text_row])])), st2)
         \<and> q = Array2 [image_row @ text_row]
         \<and> length image_row = 1000 \<and> length text_row = 1000"
proof -
  from q obtain ir st1 where pi: "predict_image st upload = (Inr ir, st1)"
    by (cases "predict_image st upload"; cases "fst (predict_image st upload)")
       (auto simp: combined_embeddings_def)
  from predict_image_single_row [OF c pi] obtain image_row where
    ir: "ir = JSONResponse (JObj [(''features'', tolist [image_row])])"
    and li: "length image_row = 1000" by blast
  have ia: "features_array ir = Inr (Array2 [image_row])"
    by (simp add: ir features_array_single)
  from q pi ia obtain tr where pt: "predict_text st1 txt = (Inr tr, st2)"
    by (cases "predict_text st1 txt"; cases "fst (predict_text st1 txt)")
       (auto simp: combined_embeddings_def split: sum.splits)
  from predict_text_rows [OF pt] obtain a where
    tr: "tr = JSONResponse (JObj [(''features'', tolist a)])"
    and la: "list_all (\<lambda>r. length r = 1000) a" by blast
  from q pi ia pt obtain ta where fa: "features_array tr = Inr ta"
    and cc: "concatenate_axis1 (Array2 [image_row]) ta = Inr q"
    by (auto simp: combined_embeddings_def astype_float32_def split: sum.splits)
  from concatenate_single [OF fa [unfolded tr] cc] obtain text_row where
    a: "a = [text_row]" and qq: "q = Array2 [image_row @ text_row]" by blast
  from la a have "length text_row = 1000" by simp
  with pi ir pt tr a qq li show ?thesis by blast
qed

lemma predict_text_single_row:
  assumes c: "bert_contract (bert (text_feature_extraction_model st))"
      and p: "predict_text st txt = (Inr r, st')"
  shows "\<exists>row. r = JSONResponse (JObj [(''features'', tolist [row])]) \<and> length row = 1000"
proof -
  from predict_text_Inr [OF p] obtain e where
    e: "predict_text_embeddings st txt = (Inr e, st')"
    and r: "r = JSONResponse (JObj [(''features'', tolist (rows e))])" by blast
  from predict_text_embeddings_Inr [OF e] obtain pooled where
    b: "bert (text_feature_extraction_model st)
             \<lparr>input_ids = view_1 (input_ids (tokenizer st txt)),
              attention_mask = view_1 (attention_mask (tokenizer st txt))\<rparr> = Inr pooled"
    and len: "length (rows e) = length pooled"
    and all: "list_all (\<lambda>r. length r = 1000) (rows e)" by blast
  from c b have "length pooled = 1"
    unfolding bert_contract_def by (auto simp: view_1_def)
  with len have "length (rows e) = 1" by simp
  from single_row [OF this all] obtain row where "rows e = [row]" "length row = 1000" by blast
  with r show ?thesis by auto
qed

lemma layers_bytes:
  assumes "storage t = ByteStorage bs"
  shows "FeatureExtractor_layers g self t = (Inl RuntimeError, self)"
  using assms by (simp add: FeatureExtractor_layers_def)

lemma float_cast_dtype: "dtype_of (storage (float_cast t)) = Float32"
  by (cases "storage t") (simp_all add: float_cast_def)

lemma predict_image_embeddings_forward:
  assumes "process_image_as_pil im 224 = Inr t"
  shows "predict_image_embeddings st (Encoded im) =
           (case FeatureExtractor_forward ambient_grad_mode (image_feature_extraction_model st) t of
              (e, m) \<Rightarrow> (e, st\<lparr>image_feature_extraction_model := m\<rparr>))"
  using assms by (simp add: predict_image_embeddings_def to_device_def)

subsection \<open>The handlers on the concrete instance\<close>

lemma example_image_tensor: "process_image_as_pil black_50x100 224 = Inr example_image_tensor"
  by (simp add: process_image_as_pil_def resize_image_def resize_def black_50x100_def Let_def
         example_image_tensor_def)

lemma example_resnet_call:
  assumes "resnet50 m = example_resnet" and "fe_training m"
  shows "resnet50_call m [1, 3, 224, 224] xs
           = (Inr [replicate 1000 1], map (\<lambda>b. b + 1) (fe_buffers m))"
  using assms by (simp add: resnet50_call_def example_resnet_def)

lemma example_image_pass:
  assumes "resnet50 (image_feature_extraction_model st) = example_resnet"
      and "fe_training (image_feature_extraction_model st)"
      and "fe_requires_grad (image_feature_extraction_model st)"
  shows "predict_image_embeddings st (Encoded black_50x100) =
     (Inr \<lparr>rows = [replicate 1000 1], grad = True\<rparr>,
      st\<lparr>image_feature_extraction_model :=
        (image_feature_extraction_model st)
          \<lparr>fe_buffers := map (\<lambda>b. b + 1) (fe_buffers (image_feature_extraction_model st))\<rparr>\<rparr>)"
proof -
  from process_image_as_pil_Inr(2) [OF example_image_tensor]
  obtain bs where bs: "storage example_image_tensor = ByteStorage bs" by blast
  show ?thesis
    unfolding predict_image_embeddings_tensor [OF example_image_tensor bs]
      example_resnet_call [OF assms(1,2)]
    using assms(3) by simp
qed

lemma example_image_response:
  assumes "resnet50 (image_feature_extraction_model st) = example_resnet"
      and "fe_training (image_feature_extraction_model st)"
      and "fe_requires_grad (image_feature_extraction_model st)"
  shows "predict_image st (Encoded black_50x100) =
     (Inr (JSONResponse (JObj [(''features'', tolist [replicate 1000 1])])),
      st\<lparr>image_feature_extraction_model :=
        (image_feature_extraction_model st)
          \<lparr>fe_buffers := map (\<lambda>b. b + 1) (fe_buffers (image_feature_extraction_model st))\<rparr>\<rparr>)"
  by (simp add: predict_image_def example_image_pass [OF assms] features_response_eq)

lemma example_predict_image_embeddings:
  "predict_image_embeddings example_app (Encoded black_50x100) =
     (Inr \<lparr>rows = [replicate 1000 1], grad = True\<rparr>,
      example_app\<lparr>image_feature_extraction_model :=
        (image_feature_extraction_model example_app)\<lparr>fe_buffers := [1]\<rparr>\<rparr>)"
proof -
  have "predict_image_embeddings example_app (Encoded black_50x100) =
     (Inr \<lparr>rows = [replicate 1000 1], grad = True\<rparr>,
      example_app\<lparr>image_feature_extraction_model :=
        (image_feature_extraction_model example_app)
          \<lparr>fe_buffers := map (\<lambda>b. b + 1)
             (fe_buffers (image_feature_extraction_model example_app))\<rparr>\<rparr>)"
    by (rule example_image_pass) (simp_all add: example_app_def)
  then show ?thesis by (simp add: example_app_def)
qed

lemma example_predict_image:
  "predict_image example_app (Encoded black_50x100) =
     (Inr (JSONResponse (JObj [(''features'', tolist [replicate 1000 1])])),
      example_app\<lparr>image_feature_extraction_model :=
        (image_feature_extraction_model example_app)\<lparr>fe_buffers := [1]\<rparr>\<rparr>)"
  by (simp add: predict_image_def example_predict_image_embeddings features_response_eq)

lemma Linear_const:
  assumes W: "\<And>j i. j < m \<Longrightarrow> i < n \<Longrightarrow> W j i = w" and b: "\<And>j. j < m \<Longrightarrow> b j = b0"
  shows "Linear n m W b (replicate n c) = Inr (replicate m (real n * (c * w) + b0))"
proof -
  have "sum_list (map (\<lambda>i. replicate n c ! i * W j i) [0..<n]) = real n * (c * w)" if "j < m" for j
  proof -
    have eq: "map (\<lambda>i. replicate n c ! i * W j i) [0..<n] = map (\<lambda>i. c * w) [0..<n]"
      by (rule map_cong) (simp_all add: W [OF that])
    show ?thesis unfolding eq by (simp add: sum_list_triv)
  qed
  then have eq: "map (\<lambda>j. sum_list (map (\<lambda>i. replicate n c ! i * W j i) [0..<n]) + b j) [0..<m]
           = map (\<lambda>j. real n * (c * w) + b0) [0..<m]"
    by (intro map_cong) (simp_all add: b)
  show ?thesis
    unfolding Linear_def eq by (simp add: map_replicate_const)
qed

lemma Dropout_all:
  assumes "\<And>i. i < n \<Longrightarrow> gen i = g"
  shows "Dropout p True gen (replicate n c)
           = (replicate n (if g then 0 else c / (1 - p)), (\<lambda>i. gen (i + n)))"
proof -
  have "map gen [0..<n] = replicate n g"
    using assms by (simp add: list_eq_iff_nth_eq)
  then show ?thesis
    by (simp add: Dropout_def bernoulli_def)
qed


lemma example_text_pass:
  assumes tok: "tokenizer st = example_tokenizer"
      and m: "text_feature_extraction_model st = text_feature_extraction_model example_app"
      and g: "\<And>i. i < 768 \<Longrightarrow> default_generator st i = g"
  shows "predict_text_embeddings st txt =
           (Inr \<lparr>rows = [replicate 1000 (768 * ((if g then 0 else 1 / (1 - 3 / 10)) * (1 / 768)) + 1 / 2)],
                  grad = True\<rparr>,
            st\<lparr>default_generator := (\<lambda>i. default_generator st (i + 768))\<rparr>)"
proof -
  have W: "linear_weight (text_feature_extraction_model example_app) j i = 1 / 768"
    if "j < 1000" "i < 768" for j i
    using that by (simp add: example_app_def example_weight_def)
  have b: "linear_bias (text_feature_extraction_model example_app) j = 1 / 2" if "j < 1000" for j
    using that by (simp add: example_app_def example_bias_def)
  have lin: "Linear 768 1000 (linear_weight (text_feature_extraction_model example_app))
               (linear_bias (text_feature_extraction_model example_app)) (replicate 768 c)
             = Inr (replicate 1000 (real 768 * (c * (1 / 768)) + 1 / 2))" for c
    by (rule Linear_const) (simp_all add: W b)
  have dr: "Dropout (3 / 10) True (default_generator st) (replicate 768 1)
             = (replicate 768 (if g then 0 else 1 / (1 - 3 / 10)),
                (\<lambda>i. default_generator st (i + 768)))"
    by (rule Dropout_all) (simp add: g)
  have flags: "bert (text_feature_extraction_model example_app) = example_bert"
    "bnn_training (text_feature_extraction_model example_app)"
    "head_requires_grad (text_feature_extraction_model example_app)"
    by (simp_all add: example_app_def)
  show ?thesis
    unfolding predict_text_embeddings_def BertNeuralNetwork_forward_def tok m flags
    by (simp add: example_tokenizer_def example_bert_def view_1_def to_device_def Let_def
          dr lin ambient_grad_mode_def flags)
qed

lemma example_predict_text_first:
  "predict_text_embeddings example_app txt =
     (Inr \<lparr>rows = [replicate 1000 (1 / 2)], grad = True\<rparr>,
      example_app\<lparr>default_generator := (\<lambda>i. example_generator (i + 768))\<rparr>)"
proof -
  have "predict_text_embeddings example_app txt =
           (Inr \<lparr>rows = [replicate 1000 (768 * ((if True then 0 else 1 / (1 - 3 / 10)) * (1 / 768)) + 1 / 2)],
                  grad = True\<rparr>,
            example_app\<lparr>default_generator := (\<lambda>i. default_generator example_app (i + 768))\<rparr>)"
    by (rule example_text_pass) (simp_all add: example_app_def example_generator_def)
  then show ?thesis by (simp add: example_app_def)
qed

lemma example_predict_text_second:
  "predict_text_embeddings (example_app\<lparr>default_generator := (\<lambda>i. example_generator (i + 768))\<rparr>) txt =
     (Inr \<lparr>rows = [replicate 1000 (27 / 14)], grad = True\<rparr>,
      example_app\<lparr>default_generator := (\<lambda>i. example_generator (i + 768 + 768))\<rparr>)"
proof -
  let ?st = "example_app\<lparr>default_generator := (\<lambda>i. example_generator (i + 768))\<rparr>"
  have "predict_text_embeddings ?st txt =
           (Inr \<lparr>rows = [replicate 1000 (768 * ((if False then 0 else 1 / (1 - 3 / 10)) * (1 / 768)) + 1 / 2)],
                  grad = True\<rparr>,
            ?st\<lparr>default_generator := (\<lambda>i. default_generator ?st (i + 768))\<rparr>)"
    by (rule example_text_pass) (simp_all add: example_app_def example_generator_def)
  then show ?thesis by simp
qed

lemma example_resnet_contract:
  "resnet50_contract (resnet50 (image_feature_extraction_model example_app))"
  by (auto simp: resnet50_contract_def example_app_def example_resnet_def list_all_iff
        split: if_splits)

lemma example_bert_contract:
  "bert_contract (bert (text_feature_extraction_model example_app))"
  by (simp add: bert_contract_def example_app_def example_bert_def)

lemma example_predict_text_after_image:
  "predict_text (example_app\<lparr>image_feature_extraction_model := m\<rparr>) txt =
     (Inr (JSONResponse (JObj [(''features'', tolist [replicate 1000 (1 / 2)])])),
      example_app\<lparr>image_feature_extraction_model := m,
                  default_generator := (\<lambda>i. example_generator (i + 768))\<rparr>)"
proof -
  let ?st = "example_app\<lparr>image_feature_extraction_model := m\<rparr>"
  have "predict_text_embeddings ?st txt =
           (Inr \<lparr>rows = [replicate 1000 (768 * ((if True then 0 else 1 / (1 - 3 / 10)) * (1 / 768)) + 1 / 2)],
                  grad = True\<rparr>,
            ?st\<lparr>default_generator := (\<lambda>i. default_generator ?st (i + 768))\<rparr>)"
    by (rule example_text_pass) (simp_all add: example_app_def example_generator_def)
  then show ?thesis
    by (simp add: predict_text_def features_response_eq example_app_def)
qed

lemma example_predict_text:
  "predict_text example_app txt =
     (Inr (JSONResponse (JObj [(''features'', tolist [replicate 1000 (1 / 2)])])),
      example_app\<lparr>default_generator := (\<lambda>i. example_generator (i + 768))\<rparr>)"
  by (simp add: predict_text_def features_response_eq example_predict_text_first)

lemma example_combined_embeddings:
  "combined_embeddings example_app (Encoded black_50x100) txt =
     (Inr (Array2 [replicate 1000 1 @ replicate 1000 (1 / 2)]),
      example_app\<lparr>image_feature_extraction_model :=
                    (image_feature_extraction_model example_app)\<lparr>fe_buffers := [1]\<rparr>,
                  default_generator := (\<lambda>i. example_generator (i + 768))\<rparr>)"
  unfolding combined_embeddings_def example_predict_image
  by (simp add: features_array_single example_predict_text_after_image astype_float32_def)

lemma Dropout_rows_eval: "Dropout_rows p False gen xs = (xs, gen)"
  by (induction xs) (simp_all add: Dropout_def)

lemma predict_text_eval_mode:
  assumes "\<not> bnn_training (text_feature_extraction_model st)"
  shows "fst (predict_text (st\<lparr>default_generator := gen\<rparr>) txt) = fst (predict_text st txt)"
    and "default_generator (snd (predict_text st txt)) = default_generator st"
  using assms
  by (auto simp: predict_text_def predict_text_embeddings_def BertNeuralNetwork_forward_def
        Let_def Dropout_rows_eval split: sum.splits prod.splits)

lemma startup_modes:
  assumes "startup env = Inr st"
  shows "fe_training (image_feature_extraction_model st)"
    and "fe_requires_grad (image_feature_extraction_model st)"
    and "bnn_training (text_feature_extraction_model st)"
    and "head_requires_grad (text_feature_extraction_model st)"
  using assms
  by (auto simp: startup_def load_models_def Let_def to_device_def
        FeatureExtractor_init_def BertNeuralNetwork_init_def
        FeatureExtractor_load_state_dict_def BertNeuralNetwork_load_state_dict_def
        split: option.splits if_splits)

lemma example_startup: "startup example_environment = Inr example_app"
  by (simp add: startup_def load_models_def example_environment_def example_app_def
        FeatureExtractor_init_def BertNeuralNetwork_init_def to_device_def
        FeatureExtractor_load_state_dict_def BertNeuralNetwork_load_state_dict_def
        example_weight_def example_bias_def list_all_iff)

subsection \<open>The decoder\<close>

lemma forward_ignores_decoder:
  "fst (FeatureExtractor_forward g (self\<lparr>fe_decoder := dec\<rparr>) t)
     = fst (FeatureExtractor_forward g self t)"
  by (cases "storage t")
     (auto simp: FeatureExtractor_forward_def FeatureExtractor_layers_def float_cast_def
        resnet50_call_def Let_def split: prod.splits sum.splits)

lemma predict_ignores_decoder:
  "fst (FeatureExtractor_predict (self\<lparr>fe_decoder := dec\<rparr>) t)
     = fst (FeatureExtractor_predict self t)"
  by (cases "storage t")
     (auto simp: FeatureExtractor_predict_def FeatureExtractor_layers_def
        resnet50_call_def Let_def split: prod.splits sum.splits)

lemma predict_image_ignores_decoder:
  "fst (predict_image (st\<lparr>image_feature_extraction_model :=
          (image_feature_extraction_model st)\<lparr>fe_decoder := dec\<rparr>\<rparr>) upload)
     = fst (predict_image st upload)"
proof (cases upload)
  case NotAnImage
  then show ?thesis by (simp add: predict_image_def predict_image_embeddings_def)
next
  case (Encoded im)
  show ?thesis
  proof (cases "process_image_as_pil im 224")
    case (Inl e)
    then show ?thesis by (simp add: Encoded predict_image_def predict_image_embeddings_def)
  next
    case (Inr t)
    from process_image_as_pil_Inr(2) [OF Inr] obtain bs where bs: "storage t = ByteStorage bs"
      by blast
    show ?thesis
      unfolding Encoded predict_image_def predict_image_embeddings_tensor [OF Inr bs]
      by (auto simp: resnet50_call_def features_response_eq split: prod.splits sum.splits)
  qed
qed

lemma startup_decoder:
  assumes "startup (env\<lparr>decoder_pickle := Some d1\<rparr>) = Inr st1"
  shows "startup (env\<lparr>decoder_pickle := Some d2\<rparr>)
           = Inr (st1\<lparr>image_feature_extraction_model :=
                    (image_feature_extraction_model st1)\<lparr>fe_decoder := Some d2\<rparr>\<rparr>)"
  using assms
  by (auto simp: startup_def load_models_def Let_def to_device_def
        FeatureExtractor_init_def BertNeuralNetwork_init_def
        FeatureExtractor_load_state_dict_def BertNeuralNetwork_load_state_dict_def
        split: option.splits if_splits)

subsection \<open>Startup\<close>

lemma load_models_None:
  assumes "decoder_pickle env = None
         \<or> image_model_pt env = None
         \<or> (\<exists>sd m. image_model_pt env = Some sd \<and> FeatureExtractor_load_state_dict m sd = None)
         \<or> text_model_pt env = None
         \<or> (\<exists>sd m. text_model_pt env = Some sd \<and> BertNeuralNetwork_load_state_dict m sd = None)"
  shows "load_models env = None"
  using assms
  by (auto simp: load_models_def Let_def FeatureExtractor_load_state_dict_def
        BertNeuralNetwork_load_state_dict_def split: option.splits if_splits)

subsection \<open>The index\<close>

lemma flat_search_row_nearest_first:
  "nearest_first (IndexFlatL2 n0 vs) q k (map snd (flat_search_row vs k q))
   \<and> length (flat_search_row vs k q) = k
   \<and> (\<forall>j<min k (length vs).
         fst (flat_search_row vs k q ! j)
           = label_distance (IndexFlatL2 n0 vs) q (snd (flat_search_row vs k q ! j)))"
proof -
  define n where "n = length vs"
  define ps where "ps = map (\<lambda>i. (l2sq q (vs ! i), int i)) [0..<n]"
  define ds where "ds = sort_key fst ps"
  define pad where "pad = replicate (k - n) (if ds = [] then 0 else fst (last ds), - 1 :: int)"
  define row where "row = take k (ds @ pad)"
  have row_eq: "flat_search_row vs k q = row"
    by (simp add: flat_search_row_def Let_def row_def pad_def ds_def ps_def n_def)
  have len_ds: "length ds = n" by (simp add: ds_def ps_def)
  have set_ds: "set ds = (\<lambda>i. (l2sq q (vs ! i), int i)) ` {0..<n}"
    by (simp add: ds_def ps_def)
  have sorted_ds: "sorted (map fst ds)" unfolding ds_def by (rule sorted_sort_key)
  have "distinct ps" by (simp add: ps_def distinct_map inj_on_def)
  then have "distinct ds" by (simp add: ds_def)
  moreover have "inj_on snd (set ds)" unfolding set_ds by (auto simp: inj_on_def)
  ultimately have distinct_ds: "distinct (map snd ds)" by (simp add: distinct_map)
  have elem: "\<exists>i<n. ds ! j = (l2sq q (vs ! i), int i)" if "j < n" for j
  proof -
    from that len_ds have "ds ! j \<in> set ds" by simp
    with set_ds show ?thesis by auto
  qed
  have len_row: "length row = k" by (simp add: row_def pad_def len_ds)
  have row_lo: "row ! j = ds ! j" if "j < min k n" for j
    using that by (simp add: row_def nth_append len_ds)
  have row_hi: "snd (row ! j) = - 1" if "n \<le> j" "j < k" for j
    using that by (simp add: row_def nth_append len_ds pad_def)
  have dist_lo: "label_distance (IndexFlatL2 n0 vs) q (snd (row ! j)) = fst (ds ! j)"
    and valid_lo: "0 \<le> snd (row ! j) \<and> nat (snd (row ! j)) < n"
    if "j < min k n" for j
  proof -
    from that have "j < n" by simp
    from elem [OF this] obtain i where i: "i < n" "ds ! j = (l2sq q (vs ! i), int i)" by blast
    with row_lo [OF that] show "label_distance (IndexFlatL2 n0 vs) q (snd (row ! j)) = fst (ds ! j)"
      and "0 \<le> snd (row ! j) \<and> nat (snd (row ! j)) < n"
      by (simp_all add: label_distance_def IndexFlatL2_def)
  qed
  have mono: "fst (ds ! j) \<le> fst (ds ! j')" if "j \<le> j'" "j' < n" for j j'
  proof -
    from sorted_ds that len_ds have "map fst ds ! j \<le> map fst ds ! j'"
      by (intro sorted_nth_mono) simp_all
    with that len_ds show ?thesis by simp
  qed
  have a: "length (map snd row) = k" by (simp add: len_row)
  have b: "\<forall>j<k. if j < length (xb (IndexFlatL2 n0 vs))
                 then 0 \<le> map snd row ! j \<and> nat (map snd row ! j) < length (xb (IndexFlatL2 n0 vs))
                 else map snd row ! j = - 1"
  proof (intro allI impI)
    fix j assume j: "j < k"
    show "if j < length (xb (IndexFlatL2 n0 vs))
          then 0 \<le> map snd row ! j \<and> nat (map snd row ! j) < length (xb (IndexFlatL2 n0 vs))
          else map snd row ! j = - 1"
    proof (cases "j < n")
      case True
      with j have "j < min k n" by simp
      from valid_lo [OF this] j True show ?thesis
        by (simp add: IndexFlatL2_def n_def len_row)
    next
      case False
      then have "n \<le> j" by simp
      from row_hi [OF this j] j False show ?thesis
        by (simp add: IndexFlatL2_def n_def len_row)
    qed
  qed
  have take_lo: "take (min k n) (map snd row) = take (min k n) (map snd ds)"
    by (simp add: row_def take_map len_ds min_def)
  have c: "distinct (take (min k (length (xb (IndexFlatL2 n0 vs)))) (map snd row))"
    using distinct_ds by (simp add: IndexFlatL2_def n_def [symmetric] take_lo)
  have d: "\<forall>j j'. j \<le> j' \<and> j' < min k (length (xb (IndexFlatL2 n0 vs))) \<longrightarrow>
             label_distance (IndexFlatL2 n0 vs) q (map snd row ! j)
               \<le> label_distance (IndexFlatL2 n0 vs) q (map snd row ! j')"
  proof (intro allI impI)
    fix j j' assume h: "j \<le> j' \<and> j' < min k (length (xb (IndexFlatL2 n0 vs)))"
    then have j': "j' < min k n" and j: "j < min k n" and le: "j \<le> j'"
      by (simp_all add: IndexFlatL2_def n_def)
    from j j' have "map snd row ! j = snd (row ! j)" "map snd row ! j' = snd (row ! j')"
      by (simp_all add: len_row)
    with dist_lo [OF j] dist_lo [OF j'] mono [OF le] j'
    show "label_distance (IndexFlatL2 n0 vs) q (map snd row ! j)
               \<le> label_distance (IndexFlatL2 n0 vs) q (map snd row ! j')"
      by simp
  qed
  have e: "\<forall>i<length (xb (IndexFlatL2 n0 vs)). int i \<notin> set (map snd row) \<longrightarrow>
             (\<forall>j<min k (length (xb (IndexFlatL2 n0 vs))).
                label_distance (IndexFlatL2 n0 vs) q (map snd row ! j)
                  \<le> metric (IndexFlatL2 n0 vs) q (xb (IndexFlatL2 n0 vs) ! i))"
  proof (intro allI impI)
    fix i j
    assume i: "i < length (xb (IndexFlatL2 n0 vs))" and out: "int i \<notin> set (map snd row)"
      and j: "j < min k (length (xb (IndexFlatL2 n0 vs)))"
    from i have i': "i < n" by (simp add: IndexFlatL2_def n_def)
    from j have j': "j < min k n" by (simp add: IndexFlatL2_def n_def)
    from i' set_ds have "(l2sq q (vs ! i), int i) \<in> set ds" by auto
    then obtain m where m: "m < n" "ds ! m = (l2sq q (vs ! i), int i)"
      using len_ds by (auto simp: in_set_conv_nth)
    have "\<not> m < min k n"
    proof
      assume lt: "m < min k n"
      then have "m < length row" by (simp add: len_row)
      then have "snd (row ! m) \<in> set (map snd row)" by simp
      with row_lo [OF lt] m(2) out show False by simp
    qed
    with m(1) j' have "j \<le> m" by simp
    from mono [OF this m(1)] m(2) have "fst (ds ! j) \<le> l2sq q (vs ! i)" by simp
    moreover from j' have "map snd row ! j = snd (row ! j)" by (simp add: len_row)
    ultimately show "label_distance (IndexFlatL2 n0 vs) q (map snd row ! j)
                  \<le> metric (IndexFlatL2 n0 vs) q (xb (IndexFlatL2 n0 vs) ! i)"
      using dist_lo [OF j'] by (simp add: IndexFlatL2_def)
  qed
  have f: "\<forall>j<min k (length vs). fst (row ! j)
           = label_distance (IndexFlatL2 n0 vs) q (snd (row ! j))"
  proof (intro allI impI)
    fix j assume "j < min k (length vs)"
    then have j: "j < min k n" by (simp add: n_def)
    from dist_lo [OF j] row_lo [OF j]
    show "fst (row ! j) = label_distance (IndexFlatL2 n0 vs) q (snd (row ! j))" by simp
  qed
  from a b c d e have "nearest_first (IndexFlatL2 n0 vs) q k (map snd row)"
    unfolding nearest_first_def by blast
  with len_row f show ?thesis unfolding row_eq by blast
qed

lemma flat_search_contract: "index_contract (IndexFlatL2 n0 vs)"
proof -
  have sf: "search_fn (IndexFlatL2 n0 vs) = flat_search vs" "xb (IndexFlatL2 n0 vs) = vs"
    by (simp_all add: IndexFlatL2_def)
  show ?thesis
    unfolding index_contract_def sf flat_search_def Let_def
    using flat_search_row_nearest_first [of n0 vs]
    by (simp add: sf)
qed

lemma example_index_contract: "index_contract (index example_app)"
  by (simp add: example_app_def example_index_def flat_search_contract)

lemma search_single_query:
  assumes c: "index_contract idx" and s: "search idx (Array2 [q]) 3 = Inr (D, I)"
  shows "\<exists>i1 i2 i3. I = [[i1, i2, i3]]
           \<and> snd (search_fn idx [q] 3) = [[i1, i2, i3]]
           \<and> nearest_first idx q 3 [i1, i2, i3]"
proof -
  from s have sf: "search_fn idx [q] 3 = (D, I)" by (auto split: if_splits)
  from c have "length (snd (search_fn idx [q] 3)) = length [q]
      \<and> (\<forall>n<length [q]. nearest_first idx ([q] ! n) 3 (snd (search_fn idx [q] 3) ! n))"
    unfolding index_contract_def by blast
  with sf have len: "length I = 1" and nf: "nearest_first idx q 3 (I ! 0)" by simp_all
  from len obtain row where I: "I = [row]" by (cases I) auto
  with nf have nfr: "nearest_first idx q 3 row" by simp
  then have "length row = 3" by (simp add: nearest_first_def)
  then obtain i1 i2 i3 where "row = [i1, i2, i3]"
    by (cases row; cases "tl row"; cases "tl (tl row)") auto
  with I nfr sf show ?thesis by simp
qed

lemma nearest_first_three:
  assumes nf: "nearest_first idx q 3 [i1, i2, i3]" and n: "3 \<le> length (xb idx)"
  shows "label_distance idx q i1 \<le> label_distance idx q i2"
    and "label_distance idx q i2 \<le> label_distance idx q i3"
    and "distinct [i1, i2, i3]"
    and "\<forall>i<length (xb idx). int i \<notin> {i1, i2, i3} \<longrightarrow>
           label_distance idx q i3 \<le> metric idx q (xb idx ! i)"
proof -
  from n have m: "min 3 (length (xb idx)) = 3" by simp
  from nf have ord: "\<And>j j'. j \<le> j' \<Longrightarrow> j' < 3 \<Longrightarrow>
        label_distance idx q ([i1, i2, i3] ! j) \<le> label_distance idx q ([i1, i2, i3] ! j')"
    and dis: "distinct (take 3 [i1, i2, i3])"
    and far: "\<And>i j. i < length (xb idx) \<Longrightarrow> int i \<notin> set [i1, i2, i3] \<Longrightarrow> j < 3 \<Longrightarrow>
        label_distance idx q ([i1, i2, i3] ! j) \<le> metric idx q (xb idx ! i)"
    unfolding nearest_first_def m by blast+
  from ord [of 0 1] show "label_distance idx q i1 \<le> label_distance idx q i2" by simp
  from ord [of 1 2] show "label_distance idx q i2 \<le> label_distance idx q i3" by simp
  from dis show "distinct [i1, i2, i3]" by simp
  from far [of _ 2] show "\<forall>i<length (xb idx). int i \<notin> {i1, i2, i3} \<longrightarrow>
           label_distance idx q i3 \<le> metric idx q (xb idx ! i)" by simp
qed

lemma combined_query_rows:
  assumes c: "resnet50_contract (resnet50 (image_feature_extraction_model st))"
      and q: "combined_embeddings st upload txt = (Inr qa, st2)"
  shows "\<exists>q. qa = Array2 [q] \<and> length q = 2000 \<and> index st2 = index st"
proof -
  from combined_embeddings_Inr [OF c q] obtain image_row text_row st1 where
    pi: "predict_image st upload =
             (Inr (JSONResponse (JObj [(''features'', tolist [image_row])])), st1)"
    and pt: "predict_text st1 txt =
             (Inr (JSONResponse (JObj [(''features'', tolist [text_row])])), st2)"
    and qa: "qa = Array2 [image_row @ text_row]"
    and li: "length image_row = 1000" and lt: "length text_row = 1000" by blast
  from predict_image_frame [of st upload] pi have "index st1 = index st" by simp
  moreover from predict_text_frame [of st1 "txt"] pt have "index st2 = index st1" by simp
  ultimately show ?thesis using qa li lt by simp
qed

subsection \<open>The combined handler on the concrete instance\<close>

lemma l2sq_replicate: "l2sq (replicate n a) (replicate n b) = real n * (a - b) ^ 2"
  by (simp add: l2sq_def sum_list_replicate)

lemma l2sq_append:
  "length a = length c \<Longrightarrow> l2sq (a @ b) (c @ e) = l2sq a c + l2sq b e"
  by (simp add: l2sq_def)

lemma replicate_2000: "replicate 2000 x = replicate 1000 x @ replicate 1000 x"
  by (simp add: replicate_add [symmetric])

lemma example_distances:
  "l2sq (replicate 1000 1 @ replicate 1000 (1 / 2)) (example_vectors ! 0) = 1250"
  "l2sq (replicate 1000 1 @ replicate 1000 (1 / 2)) (example_vectors ! 1) = 250"
  "l2sq (replicate 1000 1 @ replicate 1000 (1 / 2)) (example_vectors ! 2) = 0"
  by (simp_all add: example_vectors_def replicate_2000 l2sq_append l2sq_replicate
        power2_eq_square)

lemma example_flat_search_row:
  "flat_search_row example_vectors 3 (replicate 1000 1 @ replicate 1000 (1 / 2))
   = [(0, 2), (250, 1), (1250, 0)]"
proof -
  have u: "[0..<3] = [0, 1, 2]" by (simp add: upt_rec)
  have l: "length example_vectors = 3" by (simp add: example_vectors_def)
  show ?thesis
    unfolding flat_search_row_def l u
    using example_distances by (simp add: Let_def)
qed

lemma example_search:
  "search example_index (Array2 [replicate 1000 1 @ replicate 1000 (1 / 2)]) 3
     = Inr ([[0, 250, 1250]], [[2, 1, 0]])"
  by (simp add: example_index_def IndexFlatL2_def flat_search_def example_flat_search_row Let_def)

lemma example_predict_combined:
  "predict_combined example_app (Encoded black_50x100) txt =
     (Inr (JSONResponse (JObj [(''similar_index'', JList [JList [JInt 2, JInt 1, JInt 0]])])),
      example_app\<lparr>image_feature_extraction_model :=
                    (image_feature_extraction_model example_app)\<lparr>fe_buffers := [1]\<rparr>,
                  default_generator := (\<lambda>i. example_generator (i + 768))\<rparr>)"
proof -
  have ix: "index example_app = example_index" by (simp add: example_app_def)
  show ?thesis
    unfolding predict_combined_def example_combined_embeddings
    by (simp add: ix example_search tolist_int_def del: search.simps)
qed

section \<open>The claims\<close>

lemma combined_query_joins_the_rows_of_its_calls:
  assumes "resnet50_contract (resnet50 (image_feature_extraction_model st))"
      and "combined_embeddings st upload txt = (Inr q, st2)"
  shows "\<exists>image_row text_row st1.
           predict_image st upload =
             (Inr (JSONResponse (JObj [(''features'', tolist [image_row])])), st1)
         \<and> predict_text st1 txt =
             (Inr (JSONResponse (JObj [(''features'', tolist [text_row])])), st2)
         \<and> fst (predict_text st txt) =
             Inr (JSONResponse (JObj [(''features'', tolist [text_row])]))
         \<and> q = Array2 [image_row @ text_row]
         \<and> length (image_row @ text_row) = 2000
         \<and> take 1000 (image_row @ text_row) = image_row
         \<and> drop 1000 (image_row @ text_row) = text_row
         \<and> predict_combined st upload txt =
             (case search (index st) (Array2 [image_row @ text_row]) 3 of
                Inl e \<Rightarrow> (Inl e, st2)
              | Inr (distances, nearest_vectors) \<Rightarrow>
                  (Inr (JSONResponse (JObj [(''similar_index'', tolist_int nearest_vectors)])), st2))"
proof -
  from combined_embeddings_Inr [OF assms] obtain image_row text_row st1 where
    pi: "predict_image st upload =
             (Inr (JSONResponse (JObj [(''features'', tolist [image_row])])), st1)"
    and pt: "predict_text st1 txt =
             (Inr (JSONResponse (JObj [(''features'', tolist [text_row])])), st2)"
    and q: "q = Array2 [image_row @ text_row]"
    and li: "length image_row = 1000" and lt: "length text_row = 1000" by blast
  from predict_image_frame [of st upload] pi have
    f1: "tokenizer st1 = tokenizer st" and
    f2: "text_feature_extraction_model st1 = text_feature_extraction_model st" and
    f3: "index st1 = index st" and
    f4: "default_generator st1 = default_generator st" by simp_all
  from predict_text_reads [OF f1 f2 f4, of "txt"] pt
  have same: "fst (predict_text st txt) =
             Inr (JSONResponse (JObj [(''features'', tolist [text_row])]))" by simp
  from predict_text_frame [of st1 "txt"] pt f3 have ix: "index st2 = index st" by simp
  have pc: "predict_combined st upload txt =
             (case search (index st) (Array2 [image_row @ text_row]) 3 of
                Inl e \<Rightarrow> (Inl e, st2)
              | Inr (distances, nearest_vectors) \<Rightarrow>
                  (Inr (JSONResponse (JObj [(''similar_index'', tolist_int nearest_vectors)])), st2))"
    unfolding predict_combined_def assms(2) by (simp add: ix q)
  from li lt have len: "length (image_row @ text_row) = 2000"
    "take 1000 (image_row @ text_row) = image_row"
    "drop 1000 (image_row @ text_row) = text_row" by simp_all
  from pi pt same q len pc show ?thesis by blast
qed

text \<open>
  C1. The claim asks that the last 1000 components of the query equal the embedding the
  text-only endpoint computes for the same text. The query is indeed the row of the image
  handler followed by the row of the text handler, as the combined handler's own calls
  returned them (\<open>combined_query_joins_the_rows_of_its_calls\<close>). But the text handler
  draws a fresh dropout mask on every call, because no module is put in evaluation mode,
  so a request to the text-only endpoint for the same text returns another row. On the
  concrete instance, started from its environment: the query is \<open>1\<close> a thousand times,
  then \<open>1/2\<close> a thousand times; asked right after, the image-only endpoint returns the
  row of \<open>1\<close>s, and the text-only endpoint returns the row of \<open>27/14\<close>s, which is not
  the second half of the query.
\<close>

theorem combined_query_text_half_differs_from_text_endpoint:
  "startup example_environment = Inr example_app
   \<and> fst (combined_embeddings example_app (Encoded black_50x100) ''sofa'')
       = Inr (Array2 [replicate 1000 1 @ replicate 1000 (1 / 2)])
   \<and> fst (predict_image (snd (combined_embeddings example_app (Encoded black_50x100) ''sofa''))
            (Encoded black_50x100))
       = Inr (JSONResponse (JObj [(''features'', tolist [replicate 1000 1])]))
   \<and> fst (predict_text (snd (combined_embeddings example_app (Encoded black_50x100) ''sofa''))
            ''sofa'')
       = Inr (JSONResponse (JObj [(''features'', tolist [replicate 1000 (27 / 14)])]))
   \<and> take 1000 (replicate 1000 1 @ replicate 1000 (1 / 2)) = replicate 1000 (1 :: real)
   \<and> drop 1000 (replicate 1000 1 @ replicate 1000 (1 / 2)) \<noteq> replicate 1000 (27 / 14 :: real)"
proof -
  let ?st = "example_app\<lparr>image_feature_extraction_model :=
                    (image_feature_extraction_model example_app)\<lparr>fe_buffers := [1]\<rparr>,
                  default_generator := (\<lambda>i. example_generator (i + 768))\<rparr>"
  have st: "snd (combined_embeddings example_app (Encoded black_50x100) ''sofa'') = ?st"
    by (simp add: example_combined_embeddings)
  have "predict_image ?st (Encoded black_50x100) =
     (Inr (JSONResponse (JObj [(''features'', tolist [replicate 1000 1])])),
      ?st\<lparr>image_feature_extraction_model :=
        (image_feature_extraction_model ?st)
          \<lparr>fe_buffers := map (\<lambda>b. b + 1) (fe_buffers (image_feature_extraction_model ?st))\<rparr>\<rparr>)"
    by (rule example_image_response) (simp_all add: example_app_def)
  then have a: "fst (predict_image ?st (Encoded black_50x100))
       = Inr (JSONResponse (JObj [(''features'', tolist [replicate 1000 1])]))"
    by simp
  have "predict_text_embeddings ?st ''sofa'' =
           (Inr \<lparr>rows = [replicate 1000 (768 * ((if False then 0 else 1 / (1 - 3 / 10)) * (1 / 768)) + 1 / 2)],
                  grad = True\<rparr>,
            ?st\<lparr>default_generator := (\<lambda>i. default_generator ?st (i + 768))\<rparr>)"
    by (rule example_text_pass) (simp_all add: example_app_def example_generator_def)
  then have b: "fst (predict_text ?st ''sofa'')
       = Inr (JSONResponse (JObj [(''features'', tolist [replicate 1000 (27 / 14)])]))"
    by (simp add: predict_text_def features_response_eq)
  have c: "take 1000 (replicate 1000 1 @ replicate 1000 (1 / 2)) = replicate 1000 (1 :: real)"
    "drop 1000 (replicate 1000 1 @ replicate 1000 (1 / 2)) \<noteq> replicate 1000 (27 / 14 :: real)"
    by simp_all
  show ?thesis
    unfolding st a b
    using c by (simp add: example_startup example_combined_embeddings)
qed

text \<open>
  C2. As stated, the claim fails: the value of \<open>"features"\<close> is not a flat list of
  1000 floats. The models return a tensor of sizes \<open>(1, 1000)\<close>, and \<open>tolist\<close> of it
  is a list holding one list; \<open>predict_combined\<close> relies on that nesting when it joins
  the two arrays along axis 1. On the concrete instance:
\<close>

theorem features_flat_list_counterexample:
  "fst (predict_image example_app (Encoded black_50x100))
     = Inr (JSONResponse (JObj [(''features'', JList [JList (map JNum (replicate 1000 1))])]))
   \<and> \<not> flat_floats 1000 (JList [JList (map JNum (replicate 1000 1))])
   \<and> fst (predict_text example_app ''sofa'')
     = Inr (JSONResponse (JObj [(''features'', JList [JList (map JNum (replicate 1000 (1 / 2)))])]))
   \<and> \<not> flat_floats 1000 (JList [JList (map JNum (replicate 1000 (1 / 2)))])"
  by (simp add: example_predict_image example_predict_text tolist_def)

text \<open>
  C2, amended. For every successful request, the image handler and the text handler each
  return the content \<open>{"features": [row]}\<close>: a list holding one row, the row a list of
  exactly 1000 floats. The one row is the batch of one image, or of one text.
\<close>

theorem features_is_one_row_of_1000:
  assumes "resnet50_contract (resnet50 (image_feature_extraction_model st))"
      and "bert_contract (bert (text_feature_extraction_model st))"
  shows "(predict_image st upload = (Inr r, st') \<longrightarrow>
           (\<exists>row. body r = JObj [(''features'', JList [JList (map JNum row)])]
                \<and> length row = 1000))
       \<and> (predict_text st txt = (Inr r2, st2) \<longrightarrow>
           (\<exists>row. body r2 = JObj [(''features'', JList [JList (map JNum row)])]
                \<and> length row = 1000))"
proof (intro conjI impI)
  assume "predict_image st upload = (Inr r, st')"
  from predict_image_single_row [OF assms(1) this]
  show "\<exists>row. body r = JObj [(''features'', JList [JList (map JNum row)])] \<and> length row = 1000"
    by (auto simp: tolist_def)
next
  assume "predict_text st txt = (Inr r2, st2)"
  from predict_text_single_row [OF assms(2) this]
  show "\<exists>row. body r2 = JObj [(''features'', JList [JList (map JNum row)])] \<and> length row = 1000"
    by (auto simp: tolist_def)
qed

theorem features_is_one_row_of_1000_witness:
  "resnet50_contract (resnet50 (image_feature_extraction_model example_app))
   \<and> bert_contract (bert (text_feature_extraction_model example_app))
   \<and> fst (predict_image example_app (Encoded black_50x100))
       = Inr (JSONResponse (JObj [(''features'', tolist [replicate 1000 1])]))
   \<and> fst (predict_text example_app ''sofa'')
       = Inr (JSONResponse (JObj [(''features'', tolist [replicate 1000 (1 / 2)])]))
   \<and> (\<exists>row. body (JSONResponse (JObj [(''features'', tolist [replicate 1000 1])]))
              = JObj [(''features'', JList [JList (map JNum row)])] \<and> length row = 1000)
   \<and> (\<exists>row. body (JSONResponse (JObj [(''features'', tolist [replicate 1000 (1 / 2)])]))
              = JObj [(''features'', JList [JList (map JNum row)])] \<and> length row = 1000)"
proof -
  note c1 = example_resnet_contract
  note c2 = example_bert_contract
  note pi = example_predict_image
  note pt = example_predict_text [of "''sofa''"]
  from features_is_one_row_of_1000 [OF c1 c2, THEN conjunct1, rule_format, OF pi]
  have a: "\<exists>row. body (JSONResponse (JObj [(''features'', tolist [replicate 1000 1])]))
              = JObj [(''features'', JList [JList (map JNum row)])] \<and> length row = 1000" .
  from features_is_one_row_of_1000 [OF c1 c2, THEN conjunct2, rule_format, OF pt]
  have b: "\<exists>row. body (JSONResponse (JObj [(''features'', tolist [replicate 1000 (1 / 2)])]))
              = JObj [(''features'', JList [JList (map JNum row)])] \<and> length row = 1000" .
  from c1 c2 a b show ?thesis
    by (simp only: pi pt fst_conv simp_thms)
qed

text \<open>
  C3. The claim asks that two evaluations of the text embedding on the same text give the
  same vector. The served model does not do that. No module is ever put in evaluation
  mode (\<open>startup_modes\<close>), so the \<open>Dropout(p=0.3)\<close> in front of the linear layer is
  active on every request and draws a fresh mask from the generator. On the concrete
  instance, started from its environment, the same text sent twice gets two different
  embeddings: \<open>1/2\<close> everywhere when the mask drops every element, \<open>27/14\<close>
  everywhere when it keeps every element. In evaluation mode the embedding is a function
  of the text alone (\<open>predict_text_eval_mode\<close>).
\<close>

theorem text_embedding_differs_between_requests:
  "startup example_environment = Inr example_app
   \<and> fst (predict_text example_app ''sofa'')
       = Inr (JSONResponse (JObj [(''features'', tolist [replicate 1000 (1 / 2)])]))
   \<and> fst (predict_text (snd (predict_text example_app ''sofa'')) ''sofa'')
       = Inr (JSONResponse (JObj [(''features'', tolist [replicate 1000 (27 / 14)])]))
   \<and> fst (predict_text example_app ''sofa'')
       \<noteq> fst (predict_text (snd (predict_text example_app ''sofa'')) ''sofa'')"
proof -
  have b: "fst (predict_text (example_app\<lparr>default_generator := (\<lambda>i. example_generator (i + 768))\<rparr>) ''sofa'')
       = Inr (JSONResponse (JObj [(''features'', tolist [replicate 1000 (27 / 14)])]))"
    by (simp add: predict_text_def example_predict_text_second features_response_eq)
  have c: "tolist [replicate 1000 (1 / 2)] \<noteq> tolist [replicate 1000 (27 / 14)]"
    by (simp add: tolist_def)
  show ?thesis
    unfolding example_predict_text snd_conv fst_conv b
    using c by (simp add: example_startup)
qed

lemma predict_image_embeddings_tracked:
  assumes "fe_requires_grad (image_feature_extraction_model st)"
      and "predict_image_embeddings st upload = (Inr e, st')"
  shows "grad e \<and> numpy e = Inl RuntimeError \<and> numpy (detach e) = Inr (rows e)"
proof -
  from predict_image_embeddings_Inr [OF assms(2)] assms(1) have "grad e" by auto
  then show ?thesis by (simp add: numpy_def detach_def)
qed

text \<open>
  C4. The claim asks that the image handler run the inference without gradient tracking,
  on the \<open>predict\<close> path. The handler calls the module instead, which runs \<open>forward\<close>
  under the ambient grad mode, and that mode is on: with parameters that require grad,
  as they do from startup on (\<open>startup_modes\<close>), the tensor of every image request that
  reaches the model is tracked by autograd (\<open>predict_image_embeddings_tracked\<close>), until
  the handler detaches it. On the concrete instance, started from its environment, the
  handler holds a tracked tensor, the one \<open>forward\<close> returns with grad mode on, where the
  no-grad path returns the same rows untracked.
\<close>

theorem image_endpoint_tracks_gradients:
  "startup example_environment = Inr example_app
   \<and> ambient_grad_mode
   \<and> process_image_as_pil black_50x100 224 = Inr example_image_tensor
   \<and> fst (predict_image_embeddings example_app (Encoded black_50x100))
       = Inr \<lparr>rows = [replicate 1000 1], grad = True\<rparr>
   \<and> fst (FeatureExtractor_forward True (image_feature_extraction_model example_app)
            example_image_tensor)
       = Inr \<lparr>rows = [replicate 1000 1], grad = True\<rparr>
   \<and> fst (FeatureExtractor_predict (image_feature_extraction_model example_app)
            (float_cast example_image_tensor))
       = Inr \<lparr>rows = [replicate 1000 1], grad = False\<rparr>"
proof -
  from process_image_as_pil_Inr [OF example_image_tensor]
  obtain bs where bs: "storage example_image_tensor = ByteStorage bs"
    and sh: "shape example_image_tensor = [1, 3, 224, 224]" by blast
  have m: "resnet50 (image_feature_extraction_model example_app) = example_resnet"
    "fe_training (image_feature_extraction_model example_app)"
    "fe_requires_grad (image_feature_extraction_model example_app)"
    by (simp_all add: example_app_def)
  have a: "fst (FeatureExtractor_forward True (image_feature_extraction_model example_app)
            example_image_tensor)
       = Inr \<lparr>rows = [replicate 1000 1], grad = True\<rparr>"
    unfolding forward_bytes [OF bs] sh example_resnet_call [OF m(1,2)]
    by (simp add: m)
  have "FeatureExtractor_predict (image_feature_extraction_model example_app)
            (float_cast example_image_tensor)
        = FeatureExtractor_forward False (image_feature_extraction_model example_app)
            example_image_tensor"
    by (simp add: FeatureExtractor_predict_def FeatureExtractor_forward_def)
  then have b: "fst (FeatureExtractor_predict (image_feature_extraction_model example_app)
            (float_cast example_image_tensor))
       = Inr \<lparr>rows = [replicate 1000 1], grad = False\<rparr>"
    unfolding forward_bytes [OF bs] sh example_resnet_call [OF m(1,2)] by simp
  from a b show ?thesis
    by (simp add: example_startup ambient_grad_mode_def example_image_tensor
          example_predict_image_embeddings)
qed





text \<open>
  C6. For every request the combined handler answers, it searches the index once, with the
  single query row and \<open>k = 3\<close>, and its content is
  \<open>{"similar_index": [[i1, i2, i3]]}\<close>: one row of three integer labels, the row of
  labels the search returned for the query. By the contract of the index, that row holds
  the three nearest stored vectors, nearest first: with three or more vectors stored, the
  three labels are different, the distances from the query to the vectors they name are
  in increasing order, and no other stored vector is nearer to the query than the third.
\<close>

theorem similar_images_returns_three_nearest:
  assumes "resnet50_contract (resnet50 (image_feature_extraction_model st))"
      and "index_contract (index st)"
      and "predict_combined st upload txt = (Inr r, st')"
  shows "\<exists>q i1 i2 i3.
           combined_embeddings st upload txt = (Inr (Array2 [q]), st')
         \<and> length q = 2000
         \<and> snd (search_fn (index st) [q] 3) = [[i1, i2, i3]]
         \<and> body r = JObj [(''similar_index'', JList [JList [JInt i1, JInt i2, JInt i3]])]
         \<and> nearest_first (index st) q 3 [i1, i2, i3]
         \<and> (3 \<le> length (xb (index st)) \<longrightarrow>
               label_distance (index st) q i1 \<le> label_distance (index st) q i2
             \<and> label_distance (index st) q i2 \<le> label_distance (index st) q i3
             \<and> distinct [i1, i2, i3]
             \<and> (\<forall>i<length (xb (index st)). int i \<notin> {i1, i2, i3} \<longrightarrow>
                   label_distance (index st) q i3 \<le> metric (index st) q (xb (index st) ! i)))"
proof -
  from assms(3) obtain qa where ce: "combined_embeddings st upload txt = (Inr qa, st')"
    by (cases "combined_embeddings st upload txt"; cases "fst (combined_embeddings st upload txt)")
       (auto simp: predict_combined_def split: sum.splits prod.splits)
  from combined_query_rows [OF assms(1) ce] obtain q where
    qa: "qa = Array2 [q]" and lq: "length q = 2000" and ix: "index st' = index st" by blast
  from assms(3) have "(case search (index st) (Array2 [q]) 3 of
          Inl e \<Rightarrow> (Inl e, st')
        | Inr (distances, nearest_vectors) \<Rightarrow>
            (Inr (JSONResponse (JObj [(''similar_index'', tolist_int nearest_vectors)])), st'))
       = (Inr r, st')"
    unfolding predict_combined_def ce qa by (simp add: ix cong: if_cong)
  then obtain D I where s: "search (index st) (Array2 [q]) 3 = Inr (D, I)"
    and r: "r = JSONResponse (JObj [(''similar_index'', tolist_int I)])"
    by (cases "search (index st) (Array2 [q]) 3") (auto split: prod.splits)
  from search_single_query [OF assms(2) s] obtain i1 i2 i3 where
    I: "I = [[i1, i2, i3]]" and sf: "snd (search_fn (index st) [q] 3) = [[i1, i2, i3]]"
    and nf: "nearest_first (index st) q 3 [i1, i2, i3]" by blast
  from r I have b: "body r = JObj [(''similar_index'', JList [JList [JInt i1, JInt i2, JInt i3]])]"
    by (simp add: tolist_int_def)
  have three: "3 \<le> length (xb (index st)) \<longrightarrow>
               label_distance (index st) q i1 \<le> label_distance (index st) q i2
             \<and> label_distance (index st) q i2 \<le> label_distance (index st) q i3
             \<and> distinct [i1, i2, i3]
             \<and> (\<forall>i<length (xb (index st)). int i \<notin> {i1, i2, i3} \<longrightarrow>
                   label_distance (index st) q i3 \<le> metric (index st) q (xb (index st) ! i))"
    using nearest_first_three [OF nf] by blast
  from ce qa lq sf b nf three show ?thesis by blast
qed

theorem similar_images_returns_three_nearest_witness:
  "resnet50_contract (resnet50 (image_feature_extraction_model example_app))
   \<and> index_contract (index example_app)
   \<and> fst (predict_combined example_app (Encoded black_50x100) ''sofa'')
       = Inr (JSONResponse (JObj [(''similar_index'', JList [JList [JInt 2, JInt 1, JInt 0]])]))
   \<and> 3 \<le> length (xb (index example_app))
   \<and> (\<exists>q i1 i2 i3.
         fst (combined_embeddings example_app (Encoded black_50x100) ''sofa'') = Inr (Array2 [q])
       \<and> length q = 2000
       \<and> snd (search_fn (index example_app) [q] 3) = [[i1, i2, i3]]
       \<and> body (JSONResponse (JObj [(''similar_index'', JList [JList [JInt 2, JInt 1, JInt 0]])]))
           = JObj [(''similar_index'', JList [JList [JInt i1, JInt i2, JInt i3]])]
       \<and> label_distance (index example_app) q i1 \<le> label_distance (index example_app) q i2
       \<and> label_distance (index example_app) q i2 \<le> label_distance (index example_app) q i3
       \<and> distinct [i1, i2, i3])"
proof -
  note c1 = example_resnet_contract
  note c2 = example_index_contract
  note p = example_predict_combined [of "''sofa''"]
  have n: "3 \<le> length (xb (index example_app))"
    by (simp add: example_app_def example_index_def IndexFlatL2_def example_vectors_def)
  from similar_images_returns_three_nearest [OF c1 c2 p] n
  have "\<exists>q i1 i2 i3.
         fst (combined_embeddings example_app (Encoded black_50x100) ''sofa'') = Inr (Array2 [q])
       \<and> length q = 2000
       \<and> snd (search_fn (index example_app) [q] 3) = [[i1, i2, i3]]
       \<and> body (JSONResponse (JObj [(''similar_index'', JList [JList [JInt 2, JInt 1, JInt 0]])]))
           = JObj [(''similar_index'', JList [JList [JInt i1, JInt i2, JInt i3]])]
       \<and> label_distance (index example_app) q i1 \<le> label_distance (index example_app) q i2
       \<and> label_distance (index example_app) q i2 \<le> label_distance (index example_app) q i3
       \<and> distinct [i1, i2, i3]"
    by (metis (no_types, lifting) fst_conv)
  with c1 c2 p n show ?thesis by simp
qed

text \<open>
  C7. If the decoder artifact, the weight file of either model or the index artifact is
  absent or unreadable, or \<open>load_state_dict\<close> rejects a weight file, then the
  module-level code raises \<open>OSError\<close>: \<open>startup\<close> returns no state. The handlers are
  functions of that state, so none of them is served: there is no partial availability.
\<close>

theorem startup_fails_when_a_load_fails:
  assumes "decoder_pickle env = None
         \<or> image_model_pt env = None
         \<or> (\<exists>sd m. image_model_pt env = Some sd \<and> FeatureExtractor_load_state_dict m sd = None)
         \<or> text_model_pt env = None
         \<or> (\<exists>sd m. text_model_pt env = Some sd \<and> BertNeuralNetwork_load_state_dict m sd = None)
         \<or> faiss_pickle env = None"
  shows "(\<exists>msg. startup env = Inl (OSError msg)) \<and> (\<forall>st. startup env \<noteq> Inr st)"
proof -
  have "\<exists>msg. startup env = Inl (OSError msg)"
  proof (cases "pretrained_tokenizer env")
    case None
    then show ?thesis by (simp add: startup_def)
  next
    case (Some tok)
    show ?thesis
    proof (cases "load_models env")
      case None
      then show ?thesis by (simp add: startup_def Some)
    next
      case models: (Some ms)
      with assms load_models_None [of env] have "faiss_pickle env = None" by auto
      with models Some show ?thesis by (simp add: startup_def split: prod.splits)
    qed
  qed
  then show ?thesis by auto
qed

theorem startup_fails_when_a_load_fails_witness:
  "faiss_pickle (example_environment\<lparr>faiss_pickle := None\<rparr>) = None
   \<and> startup (example_environment\<lparr>faiss_pickle := None\<rparr>)
       = Inl (OSError ''No Image model found. Check that you have the encoder and the model in the correct location.'')
   \<and> (\<exists>msg. startup (example_environment\<lparr>faiss_pickle := None\<rparr>) = Inl (OSError msg))
   \<and> decoder_pickle (example_environment\<lparr>decoder_pickle := None\<rparr>) = None
   \<and> (\<exists>msg. startup (example_environment\<lparr>decoder_pickle := None\<rparr>) = Inl (OSError msg))"
proof -
  have h1: "faiss_pickle (example_environment\<lparr>faiss_pickle := None\<rparr>) = None" by simp
  have h2: "decoder_pickle (example_environment\<lparr>decoder_pickle := None\<rparr>) = None" by simp
  from startup_fails_when_a_load_fails [of "example_environment\<lparr>faiss_pickle := None\<rparr>"] h1
  have a: "\<exists>msg. startup (example_environment\<lparr>faiss_pickle := None\<rparr>) = Inl (OSError msg)"
    by blast
  from startup_fails_when_a_load_fails [of "example_environment\<lparr>decoder_pickle := None\<rparr>"] h2
  have b: "\<exists>msg. startup (example_environment\<lparr>decoder_pickle := None\<rparr>) = Inl (OSError msg)"
    by blast
  have c: "startup (example_environment\<lparr>faiss_pickle := None\<rparr>)
       = Inl (OSError ''No Image model found. Check that you have the encoder and the model in the correct location.'')"
    by (simp add: startup_def load_models_def example_environment_def
        FeatureExtractor_init_def BertNeuralNetwork_init_def to_device_def
        FeatureExtractor_load_state_dict_def BertNeuralNetwork_load_state_dict_def
        example_weight_def example_bias_def list_all_iff)
  from h1 h2 a b c show ?thesis by blast
qed

text \<open>
  C8. The claim asks that no handler changes the image model, the text model or the
  index. The text model and the index are indeed left as they are
  (\<open>predict_image_frame\<close>, \<open>predict_text_frame\<close>, \<open>predict_combined_frame\<close>), and so
  are the image model's parameters. Its buffers are not: after an image request they are
  what the backbone's pass returned (\<open>predict_image_writes_buffers\<close>), the image model is
  in training mode on every request (\<open>startup_modes\<close>), and a training-mode pass through
  batch normalisation writes the running statistics and the batch counter. On the
  concrete instance, started from its environment, one image request moves the buffer
  from \<open>[0]\<close> to \<open>[1]\<close>.
\<close>

theorem image_request_changes_buffers:
  "startup example_environment = Inr example_app
   \<and> fe_buffers (image_feature_extraction_model example_app) = [0]
   \<and> fe_buffers (image_feature_extraction_model
         (snd (predict_image example_app (Encoded black_50x100)))) = [1]
   \<and> image_feature_extraction_model (snd (predict_image example_app (Encoded black_50x100)))
       \<noteq> image_feature_extraction_model example_app"
proof -
  have a: "fe_buffers (image_feature_extraction_model example_app) = [0]"
    by (simp add: example_app_def)
  have b: "fe_buffers (image_feature_extraction_model
         (snd (predict_image example_app (Encoded black_50x100)))) = [1]"
    by (simp add: example_predict_image)
  from a b have "image_feature_extraction_model (snd (predict_image example_app (Encoded black_50x100)))
       \<noteq> image_feature_extraction_model example_app"
    by (metis list.inject zero_neq_one)
  with a b example_startup show ?thesis by simp
qed

text \<open>
  C9. The decoder passed to the constructors does not influence any embedding: for any
  two decoders, \<open>forward\<close> and \<open>predict\<close> of the two image models agree on every input,
  and so do those of the two text models, whose constructor does not even store it. For
  the served process: if it starts with one decoder artifact it starts with any other,
  and both handlers answer every request alike.
\<close>

theorem decoder_does_not_influence_embeddings:
  "fst (FeatureExtractor_forward g (FeatureExtractor_init pre d1) t)
     = fst (FeatureExtractor_forward g (FeatureExtractor_init pre d2) t)
   \<and> fst (FeatureExtractor_predict (FeatureExtractor_init pre d1) t)
     = fst (FeatureExtractor_predict (FeatureExtractor_init pre d2) t)
   \<and> BertNeuralNetwork_forward g (BertNeuralNetwork_init enc init d1) gen X
     = BertNeuralNetwork_forward g (BertNeuralNetwork_init enc init d2) gen X
   \<and> BertNeuralNetwork_predict (BertNeuralNetwork_init enc init d1) gen X
     = BertNeuralNetwork_predict (BertNeuralNetwork_init enc init d2) gen X
   \<and> (startup (env\<lparr>decoder_pickle := Some d1'\<rparr>) = Inr st1 \<longrightarrow>
        (\<exists>st2. startup (env\<lparr>decoder_pickle := Some d2'\<rparr>) = Inr st2
             \<and> fst (predict_image st1 upload) = fst (predict_image st2 upload)
             \<and> fst (predict_text st1 txt) = fst (predict_text st2 txt)))"
proof (intro conjI impI)
  have "FeatureExtractor_init pre d1 = (FeatureExtractor_init pre d2)\<lparr>fe_decoder := d1\<rparr>"
    by (simp add: FeatureExtractor_init_def)
  then show "fst (FeatureExtractor_forward g (FeatureExtractor_init pre d1) t)
     = fst (FeatureExtractor_forward g (FeatureExtractor_init pre d2) t)"
    "fst (FeatureExtractor_predict (FeatureExtractor_init pre d1) t)
     = fst (FeatureExtractor_predict (FeatureExtractor_init pre d2) t)"
    by (simp_all add: forward_ignores_decoder predict_ignores_decoder)
  show "BertNeuralNetwork_forward g (BertNeuralNetwork_init enc init d1) gen X
     = BertNeuralNetwork_forward g (BertNeuralNetwork_init enc init d2) gen X"
    "BertNeuralNetwork_predict (BertNeuralNetwork_init enc init d1) gen X
     = BertNeuralNetwork_predict (BertNeuralNetwork_init enc init d2) gen X"
    by (simp_all add: BertNeuralNetwork_init_def BertNeuralNetwork_predict_def)
next
  assume s1: "startup (env\<lparr>decoder_pickle := Some d1'\<rparr>) = Inr st1"
  let ?st2 = "st1\<lparr>image_feature_extraction_model :=
                    (image_feature_extraction_model st1)\<lparr>fe_decoder := Some d2'\<rparr>\<rparr>"
  have "startup (env\<lparr>decoder_pickle := Some d2'\<rparr>) = Inr ?st2"
    by (rule startup_decoder [OF s1])
  moreover have "fst (predict_image st1 upload) = fst (predict_image ?st2 upload)"
    by (simp add: predict_image_ignores_decoder)
  moreover have "fst (predict_text st1 txt) = fst (predict_text ?st2 txt)"
    by (rule predict_text_reads [symmetric]) simp_all
  ultimately show "\<exists>st2. startup (env\<lparr>decoder_pickle := Some d2'\<rparr>) = Inr st2
             \<and> fst (predict_image st1 upload) = fst (predict_image st2 upload)
             \<and> fst (predict_text st1 txt) = fst (predict_text st2 txt)"
    by blast
qed

theorem decoder_does_not_influence_embeddings_witness:
  "startup (example_environment\<lparr>decoder_pickle := Some example_decoder\<rparr>) = Inr example_app
   \<and> (\<exists>st2. startup (example_environment\<lparr>decoder_pickle := Some []\<rparr>) = Inr st2
          \<and> fst (predict_image example_app (Encoded black_50x100))
              = fst (predict_image st2 (Encoded black_50x100))
          \<and> fst (predict_text example_app ''sofa'') = fst (predict_text st2 ''sofa''))"
proof -
  have s: "startup (example_environment\<lparr>decoder_pickle := Some example_decoder\<rparr>) = Inr example_app"
    using example_startup by (simp add: example_environment_def)
  from decoder_does_not_influence_embeddings
  have "startup (example_environment\<lparr>decoder_pickle := Some example_decoder\<rparr>) = Inr example_app \<longrightarrow>
        (\<exists>st2. startup (example_environment\<lparr>decoder_pickle := Some []\<rparr>) = Inr st2
             \<and> fst (predict_image example_app (Encoded black_50x100))
                 = fst (predict_image st2 (Encoded black_50x100))
             \<and> fst (predict_text example_app ''sofa'') = fst (predict_text st2 ''sofa''))"
    by blast
  with s show ?thesis by blast
qed

text \<open>
  C10. \<open>forward\<close> casts its input to float and applies the backbone to the cast: on a
  byte tensor the backbone receives, under the tensor's sizes, the float of the unsigned
  value of every byte, and \<open>forward\<close> returns what the backbone returns on them, rows
  or exception; on a float tensor the cast changes nothing. So a byte tensor is not
  refused for its element type, as it is by the layers without the cast. The image
  handler hands \<open>forward\<close> the byte tensor of the preprocessor, unconverted: the backbone
  receives the floats of the bytes of the preprocessed image.
\<close>

theorem forward_casts_input_to_float:
  "(storage t = ByteStorage bs \<longrightarrow>
      float_cast t = t\<lparr>storage := FloatStorage (map (\<lambda>b. real (unat b)) bs)\<rparr>
    \<and> FeatureExtractor_forward g self t =
        (case resnet50 self (fe_training self) (fe_buffers self) (shape t)
                (map (\<lambda>b. real (unat b)) bs) of
           (Inl e, bufs) \<Rightarrow> (Inl e, self\<lparr>fe_buffers := bufs\<rparr>)
         | (Inr out, bufs) \<Rightarrow>
             (Inr \<lparr>rows = out, grad = (g \<and> (fe_requires_grad self \<or> requires_grad t))\<rparr>,
              self\<lparr>fe_buffers := bufs\<rparr>))
    \<and> FeatureExtractor_layers g self t = (Inl RuntimeError, self))
   \<and> (storage t = FloatStorage fs \<longrightarrow>
      float_cast t = t
    \<and> FeatureExtractor_forward g self t =
        (case resnet50 self (fe_training self) (fe_buffers self) (shape t) fs of
           (Inl e, bufs) \<Rightarrow> (Inl e, self\<lparr>fe_buffers := bufs\<rparr>)
         | (Inr out, bufs) \<Rightarrow>
             (Inr \<lparr>rows = out, grad = (g \<and> (fe_requires_grad self \<or> requires_grad t))\<rparr>,
              self\<lparr>fe_buffers := bufs\<rparr>)))
   \<and> (process_image_as_pil im 224 = Inr t' \<longrightarrow>
      (\<exists>bs'. storage t' = ByteStorage bs' \<and> length bs' = 3 * (224 * 224)
         \<and> predict_image_embeddings st (Encoded im) =
             (case resnet50 (image_feature_extraction_model st)
                     (fe_training (image_feature_extraction_model st))
                     (fe_buffers (image_feature_extraction_model st))
                     [1, 3, 224, 224] (map (\<lambda>b. real (unat b)) bs') of
                (Inl e, bufs) \<Rightarrow>
                  (Inl e, st\<lparr>image_feature_extraction_model :=
                              (image_feature_extraction_model st)\<lparr>fe_buffers := bufs\<rparr>\<rparr>)
              | (Inr out, bufs) \<Rightarrow>
                  (Inr \<lparr>rows = out,
                         grad = fe_requires_grad (image_feature_extraction_model st)\<rparr>,
                   st\<lparr>image_feature_extraction_model :=
                        (image_feature_extraction_model st)\<lparr>fe_buffers := bufs\<rparr>\<rparr>))))"
proof (intro conjI impI)
  assume bs: "storage t = ByteStorage bs"
  show "float_cast t = t\<lparr>storage := FloatStorage (map (\<lambda>b. real (unat b)) bs)\<rparr>"
    by (simp add: float_cast_def bs bytes_as_floats_def)
  show "FeatureExtractor_forward g self t =
        (case resnet50 self (fe_training self) (fe_buffers self) (shape t)
                (map (\<lambda>b. real (unat b)) bs) of
           (Inl e, bufs) \<Rightarrow> (Inl e, self\<lparr>fe_buffers := bufs\<rparr>)
         | (Inr out, bufs) \<Rightarrow>
             (Inr \<lparr>rows = out, grad = (g \<and> (fe_requires_grad self \<or> requires_grad t))\<rparr>,
              self\<lparr>fe_buffers := bufs\<rparr>))"
    using forward_bytes [OF bs, of g self]
    by (simp add: resnet50_call_def bytes_as_floats_def)
  show "FeatureExtractor_layers g self t = (Inl RuntimeError, self)"
    by (rule layers_bytes [OF bs])
next
  assume fs: "storage t = FloatStorage fs"
  then have "float_storage (storage t) = storage t" by simp
  then show c: "float_cast t = t" by (simp add: float_cast_def)
  show "FeatureExtractor_forward g self t =
        (case resnet50 self (fe_training self) (fe_buffers self) (shape t) fs of
           (Inl e, bufs) \<Rightarrow> (Inl e, self\<lparr>fe_buffers := bufs\<rparr>)
         | (Inr out, bufs) \<Rightarrow>
             (Inr \<lparr>rows = out, grad = (g \<and> (fe_requires_grad self \<or> requires_grad t))\<rparr>,
              self\<lparr>fe_buffers := bufs\<rparr>))"
    by (simp add: FeatureExtractor_forward_def c FeatureExtractor_layers_def fs resnet50_call_def)
next
  assume t': "process_image_as_pil im 224 = Inr t'"
  from process_image_as_pil_Inr(2) [OF t'] obtain bs' where
    bs': "storage t' = ByteStorage bs'" and len: "length bs' = 3 * (224 * 224)" by blast
  from predict_image_embeddings_tensor [OF t' bs', of st]
  have "predict_image_embeddings st (Encoded im) =
             (case resnet50 (image_feature_extraction_model st)
                     (fe_training (image_feature_extraction_model st))
                     (fe_buffers (image_feature_extraction_model st))
                     [1, 3, 224, 224] (map (\<lambda>b. real (unat b)) bs') of
                (Inl e, bufs) \<Rightarrow>
                  (Inl e, st\<lparr>image_feature_extraction_model :=
                              (image_feature_extraction_model st)\<lparr>fe_buffers := bufs\<rparr>\<rparr>)
              | (Inr out, bufs) \<Rightarrow>
                  (Inr \<lparr>rows = out,
                         grad = fe_requires_grad (image_feature_extraction_model st)\<rparr>,
                   st\<lparr>image_feature_extraction_model :=
                        (image_feature_extraction_model st)\<lparr>fe_buffers := bufs\<rparr>\<rparr>))"
    by (simp add: resnet50_call_def bytes_as_floats_def)
  with bs' len show "\<exists>bs'. storage t' = ByteStorage bs' \<and> length bs' = 3 * (224 * 224)
         \<and> predict_image_embeddings st (Encoded im) =
             (case resnet50 (image_feature_extraction_model st)
                     (fe_training (image_feature_extraction_model st))
                     (fe_buffers (image_feature_extraction_model st))
                     [1, 3, 224, 224] (map (\<lambda>b. real (unat b)) bs') of
                (Inl e, bufs) \<Rightarrow>
                  (Inl e, st\<lparr>image_feature_extraction_model :=
                              (image_feature_extraction_model st)\<lparr>fe_buffers := bufs\<rparr>\<rparr>)
              | (Inr out, bufs) \<Rightarrow>
                  (Inr \<lparr>rows = out,
                         grad = fe_requires_grad (image_feature_extraction_model st)\<rparr>,
                   st\<lparr>image_feature_extraction_model :=
                        (image_feature_extraction_model st)\<lparr>fe_buffers := bufs\<rparr>\<rparr>))"
    by blast
qed

theorem forward_casts_input_to_float_witness:
  "storage three_bytes = ByteStorage [1, 128, 255]
   \<and> float_cast three_bytes = three_bytes\<lparr>storage := FloatStorage [1, 128, 255]\<rparr>
   \<and> FeatureExtractor_forward True echo_model three_bytes
       = (Inr \<lparr>rows = [[1, 128, 255]], grad = True\<rparr>, echo_model)
   \<and> FeatureExtractor_layers True echo_model three_bytes = (Inl RuntimeError, echo_model)
   \<and> storage (float_cast three_bytes) = FloatStorage [1, 128, 255]
   \<and> FeatureExtractor_forward True echo_model (float_cast three_bytes)
       = (Inr \<lparr>rows = [[1, 128, 255]], grad = True\<rparr>, echo_model)
   \<and> process_image_as_pil black_50x100 224 = Inr example_image_tensor
   \<and> (\<exists>bs'. storage example_image_tensor = ByteStorage bs' \<and> length bs' = 3 * (224 * 224)
         \<and> predict_image_embeddings example_app (Encoded black_50x100) =
             (case resnet50 (image_feature_extraction_model example_app)
                     (fe_training (image_feature_extraction_model example_app))
                     (fe_buffers (image_feature_extraction_model example_app))
                     [1, 3, 224, 224] (map (\<lambda>b. real (unat b)) bs') of
                (Inl e, bufs) \<Rightarrow>
                  (Inl e, example_app\<lparr>image_feature_extraction_model :=
                       (image_feature_extraction_model example_app)\<lparr>fe_buffers := bufs\<rparr>\<rparr>)
              | (Inr out, bufs) \<Rightarrow>
                  (Inr \<lparr>rows = out,
                         grad = fe_requires_grad (image_feature_extraction_model example_app)\<rparr>,
                   example_app\<lparr>image_feature_extraction_model :=
                       (image_feature_extraction_model example_app)\<lparr>fe_buffers := bufs\<rparr>\<rparr>)))"
proof -
  have s: "storage three_bytes = ByteStorage [1, 128, 255]" by (simp add: three_bytes_def)
  have v: "map (\<lambda>b. real (unat b)) [1, 128, 255 :: 8 word] = [1, 128, 255]" by simp
  have e: "resnet50 echo_model (fe_training echo_model) (fe_buffers echo_model)
             (shape three_bytes) [1, 128, 255] = (Inr [[1, 128, 255]], [])"
    by (simp add: echo_model_def FeatureExtractor_init_def echo_resnet_def)
  have m: "echo_model\<lparr>fe_buffers := []\<rparr> = echo_model" "fe_requires_grad echo_model"
    "\<not> requires_grad three_bytes"
    by (simp_all add: echo_model_def FeatureExtractor_init_def three_bytes_def)
  note main = forward_casts_input_to_float
  from main [of three_bytes "[1, 128, 255]" True echo_model] s
  have 1: "float_cast three_bytes = three_bytes\<lparr>storage := FloatStorage [1, 128, 255]\<rparr>"
    and 2: "FeatureExtractor_forward True echo_model three_bytes
       = (Inr \<lparr>rows = [[1, 128, 255]], grad = True\<rparr>, echo_model)"
    and 3: "FeatureExtractor_layers True echo_model three_bytes = (Inl RuntimeError, echo_model)"
    unfolding v e using m by simp_all
  from 1 have 4: "storage (float_cast three_bytes) = FloatStorage [1, 128, 255]" by simp
  have e': "resnet50 echo_model (fe_training echo_model) (fe_buffers echo_model)
             (shape (float_cast three_bytes)) [1, 128, 255] = (Inr [[1, 128, 255]], [])"
    by (simp add: echo_model_def FeatureExtractor_init_def echo_resnet_def)
  have m': "\<not> requires_grad (float_cast three_bytes)"
    by (simp add: float_cast_def three_bytes_def)
  from main [of "float_cast three_bytes" _ True echo_model "[1, 128, 255]"] 4
  have 5: "FeatureExtractor_forward True echo_model (float_cast three_bytes)
       = (Inr \<lparr>rows = [[1, 128, 255]], grad = True\<rparr>, echo_model)"
    unfolding e' using m m' by simp
  from main [of _ _ _ _ _ black_50x100 example_image_tensor example_app] example_image_tensor
  have 6: "\<exists>bs'. storage example_image_tensor = ByteStorage bs' \<and> length bs' = 3 * (224 * 224)
         \<and> predict_image_embeddings example_app (Encoded black_50x100) =
             (case resnet50 (image_feature_extraction_model example_app)
                     (fe_training (image_feature_extraction_model example_app))
                     (fe_buffers (image_feature_extraction_model example_app))
                     [1, 3, 224, 224] (map (\<lambda>b. real (unat b)) bs') of
                (Inl e, bufs) \<Rightarrow>
                  (Inl e, example_app\<lparr>image_feature_extraction_model :=
                       (image_feature_extraction_model example_app)\<lparr>fe_buffers := bufs\<rparr>\<rparr>)
              | (Inr out, bufs) \<Rightarrow>
                  (Inr \<lparr>rows = out,
                         grad = fe_requires_grad (image_feature_extraction_model example_app)\<rparr>,
                   example_app\<lparr>image_feature_extraction_model :=
                       (image_feature_extraction_model example_app)\<lparr>fe_buffers := bufs\<rparr>\<rparr>))"
    by blast
  from s 1 2 3 4 5 6 example_image_tensor show ?thesis by blast
qed

end
